theory Spec2Isabelle
  imports Main "HOL-Library.AList"
begin

section \<open>Values on the wire\<close>

text \<open>
  The signalling messages are socket.io events whose arguments are JSON values. Only
  the shapes that the code inspects are modelled: \<open>undefined\<close>, \<open>null\<close>, booleans, strings
  and objects (an object is the list of its own properties, in insertion order). Session
  descriptions and ICE candidates are passed around as opaque values of this type.
\<close>

datatype jsval =
    JUndef
  | JNull
  | JBool bool
  | JStr string
  | JObj "(string \<times> jsval) list"

text \<open>JavaScript truthiness, as used by \<open>if (x)\<close> and \<open>a && b\<close>.\<close>

fun truthy :: "jsval \<Rightarrow> bool" where
  "truthy JUndef = False"
| "truthy JNull = False"
| "truthy (JBool b) = b"
| "truthy (JStr s) = (s \<noteq> [])"
| "truthy (JObj kvs) = True"

text \<open>
  Property read \<open>o.k\<close> on an object: the value of the property, \<open>undefined\<close> when the
  object has no such property.
\<close>

definition js_get :: "(string \<times> jsval) list \<Rightarrow> string \<Rightarrow> jsval" where
  "js_get kvs k = (case map_of kvs k of None \<Rightarrow> JUndef | Some v \<Rightarrow> v)"

text \<open>
  A value used as a property key (\<open>userSocketMap[v]\<close>) is converted to a string first.
\<close>

fun to_key :: "jsval \<Rightarrow> string" where
  "to_key JUndef = ''undefined''"
| "to_key JNull = ''null''"
| "to_key (JBool b) = (if b then ''true'' else ''false'')"
| "to_key (JStr s) = s"
| "to_key (JObj kvs) = ''[object Object]''"

section \<open>Presence registry and signalling relay (backend, lib/socket.js)\<close>

text \<open>
  The source of this part is the second document of
  \<^verbatim>\<open>src/frontend/src/components/VideoCall.jsx\<close>, from line 854 on.
\<close>

text \<open>
  \<open>userSocketMap\<close> is a plain object \<open>{userId: socketId}\<close>, created by \<open>{}\<close>, so its
  prototype is \<open>Object.prototype\<close>. The object is modelled by the list of its own
  properties (in insertion order, the ids not being array indices); what it inherits is
  the same at all times and is given by the names of the members of \<open>Object.prototype\<close>.
\<close>

type_synonym registry = "(string \<times> string) list"

definition object_prototype_names :: "string list" where
  "object_prototype_names =
     [''constructor'', ''__defineGetter__'', ''__defineSetter__'', ''hasOwnProperty'',
      ''__lookupGetter__'', ''__lookupSetter__'', ''isPrototypeOf'',
      ''propertyIsEnumerable'', ''toString'', ''valueOf'', ''__proto__'',
      ''toLocaleString'']"

text \<open>
  The result of the property read \<open>userSocketMap[k]\<close>: the own property when there is
  one, else the inherited member of that name (a function, or for \<open>__proto__\<close> the
  prototype object itself; never a socket id, and always truthy), else \<open>undefined\<close>.
\<close>

datatype property_value =
    Absent               \<comment> \<open>\<open>undefined\<close>\<close>
  | SocketId string      \<comment> \<open>the own property of that name\<close>
  | Inherited string     \<comment> \<open>the member of \<open>Object.prototype\<close> of that name\<close>

definition property_read :: "registry \<Rightarrow> string \<Rightarrow> property_value" where
  "property_read userSocketMap k =
     (case map_of userSocketMap k of
        Some socketId \<Rightarrow> SocketId socketId
      | None \<Rightarrow> if k \<in> set object_prototype_names then Inherited k else Absent)"

text \<open>
  The assignment \<open>userSocketMap[k] = socketId\<close> of a string: it overwrites the value of
  an own property in place and appends a new own property otherwise, also under a name
  that is inherited (the inherited members are writable data properties), except for
  \<open>__proto__\<close>: that name is an accessor of \<open>Object.prototype\<close> whose setter ignores a
  string, so that nothing is stored.
\<close>

definition property_write :: "registry \<Rightarrow> string \<Rightarrow> string \<Rightarrow> registry" where
  "property_write userSocketMap k socketId =
     (if k = ''__proto__'' \<and> map_of userSocketMap k = None then userSocketMap
      else AList.update k socketId userSocketMap)"

text \<open>\<open>delete userSocketMap[k]\<close> removes the own property of that name, if any.\<close>

definition property_delete :: "registry \<Rightarrow> string \<Rightarrow> registry" where
  "property_delete userSocketMap k = AList.delete k userSocketMap"

text \<open>
  What the server sends. \<open>io.to(x)\<close> addresses the room \<open>x\<close>: every socket is in the room
  named by its own id, and no socket is in a room that is not a string, which is what
  \<open>io.to\<close> is given when the property read yields an inherited member.
\<close>

datatype room =
    SocketRoom string    \<comment> \<open>the room named by a socket id\<close>
  | ObjectRoom string    \<comment> \<open>the inherited member of that name, used as a room\<close>

datatype emission =
    IoEmit string "string list"
      \<comment> \<open>\<open>io.emit(event, Object.keys(userSocketMap))\<close>: to every connected socket\<close>
  | IoToEmit room string "jsval list"
      \<comment> \<open>\<open>io.to(socketId).emit(event, ...args)\<close>\<close>
  | SocketEmit string string "jsval list"
      \<comment> \<open>\<open>socket.emit(event, ...args)\<close> on the socket with the given id\<close>



definition getReceiverSocketId :: "registry \<Rightarrow> string \<Rightarrow> property_value" where
  "getReceiverSocketId userSocketMap userId = property_read userSocketMap userId"

text \<open>
  \<open>const socketId = userSocketMap[v]\<close> followed by \<open>if (socketId)\<close> and
  \<open>io.to(socketId)\<close>: the room that is addressed when the value read is truthy (a
  non-empty string or an inherited member), nothing when it is not.
\<close>

definition lookup_truthy :: "registry \<Rightarrow> jsval \<Rightarrow> room option" where
  "lookup_truthy userSocketMap v =
     (case property_read userSocketMap (to_key v) of
        Absent \<Rightarrow> None
      | SocketId socketId \<Rightarrow> (if socketId \<noteq> [] then Some (SocketRoom socketId) else None)
      | Inherited n \<Rightarrow> Some (ObjectRoom n))"

text \<open>
  \<open>io.on("connection", socket => ...)\<close>: \<open>sid\<close> is \<open>socket.id\<close>, \<open>userId\<close> is
  \<open>socket.handshake.query.userId\<close>.
\<close>

definition on_connection :: "registry \<Rightarrow> string \<Rightarrow> jsval \<Rightarrow> registry \<times> emission list" where
  "on_connection userSocketMap sid userId =
     (let m = (if truthy userId then property_write userSocketMap (to_key userId) sid
               else userSocketMap)
      in (m, [IoEmit ''getOnlineUsers'' (map fst m)]))"

text \<open>\<open>socket.on("disconnect", ...)\<close> of a socket that connected with \<open>userId\<close>.\<close>

definition on_disconnect :: "registry \<Rightarrow> jsval \<Rightarrow> registry \<times> emission list" where
  "on_disconnect userSocketMap userId =
     (let m = property_delete userSocketMap (to_key userId)
      in (m, [IoEmit ''getOnlineUsers'' (map fst m)]))"

text \<open>
  \<open>socket.on("callUser", ({ userToCall, signalData, from, name }) => ...)\<close>; \<open>sid\<close> is the id
  of the socket the message arrived on, \<open>data\<close> the object sent by the client.
\<close>

definition on_callUser :: "registry \<Rightarrow> string \<Rightarrow> (string \<times> jsval) list \<Rightarrow> emission list" where
  "on_callUser userSocketMap sid data =
     (case lookup_truthy userSocketMap (js_get data ''userToCall'') of
        Some socketId \<Rightarrow>
          [IoToEmit socketId ''callUser''
             [JObj [(''signal'', js_get data ''signalData''),
                    (''from'', js_get data ''from''),
                    (''name'', js_get data ''name'')]]]
      | None \<Rightarrow>
          [SocketEmit sid ''callFailed'' [JObj [(''reason'', JStr ''User is offline'')]]])"

definition on_answerCall :: "registry \<Rightarrow> (string \<times> jsval) list \<Rightarrow> emission list" where
  "on_answerCall userSocketMap data =
     (case lookup_truthy userSocketMap (js_get data ''to'') of
        Some socketId \<Rightarrow> [IoToEmit socketId ''callAccepted'' [js_get data ''signal'']]
      | None \<Rightarrow> [])"

definition on_iceCandidate :: "registry \<Rightarrow> (string \<times> jsval) list \<Rightarrow> emission list" where
  "on_iceCandidate userSocketMap data =
     (case lookup_truthy userSocketMap (js_get data ''to'') of
        Some socketId \<Rightarrow> [IoToEmit socketId ''iceCandidate'' [js_get data ''candidate'']]
      | None \<Rightarrow> [])"

definition on_endCall :: "registry \<Rightarrow> (string \<times> jsval) list \<Rightarrow> emission list" where
  "on_endCall userSocketMap data =
     (case lookup_truthy userSocketMap (js_get data ''to'') of
        Some socketId \<Rightarrow> [IoToEmit socketId ''callEnded'' []]
      | None \<Rightarrow> [])"

definition on_rejectCall :: "registry \<Rightarrow> (string \<times> jsval) list \<Rightarrow> emission list" where
  "on_rejectCall userSocketMap data =
     (case lookup_truthy userSocketMap (js_get data ''to'') of
        Some socketId \<Rightarrow> [IoToEmit socketId ''callRejected'' []]
      | None \<Rightarrow> [])"

text \<open>
  The relay as a whole: a message arriving on the socket \<open>sid\<close> under an event name is
  handed to the handler registered for that name; other names have no handler.
\<close>

definition relay :: "registry \<Rightarrow> string \<Rightarrow> string \<Rightarrow> (string \<times> jsval) list \<Rightarrow> emission list" where
  "relay userSocketMap sid event data =
     (if event = ''callUser'' then on_callUser userSocketMap sid data
      else if event = ''answerCall'' then on_answerCall userSocketMap data
      else if event = ''iceCandidate'' then on_iceCandidate userSocketMap data
      else if event = ''endCall'' then on_endCall userSocketMap data
      else if event = ''rejectCall'' then on_rejectCall userSocketMap data
      else [])"

text \<open>Connections and disconnections, in the order the server handles them.\<close>

datatype presence_event =
    Connect string jsval      \<comment> \<open>socket id, handshake \<open>userId\<close>\<close>
  | Disconnect string jsval   \<comment> \<open>socket id, the \<open>userId\<close> that socket connected with\<close>

fun presence_step :: "registry \<Rightarrow> presence_event \<Rightarrow> registry" where
  "presence_step m (Connect sid userId) = fst (on_connection m sid userId)"
| "presence_step m (Disconnect sid userId) = fst (on_disconnect m userId)"

definition presence_run :: "registry \<Rightarrow> presence_event list \<Rightarrow> registry" where
  "presence_run m evs = foldl presence_step m evs"

text \<open>
  The registry contract in the words of the specification: the endpoint of the most
  recent register of the identity, absent when the most recent event affecting the
  identity is an unregister; \<open>start\<close> is what was known before the first event. The list
  is read from the newest event backwards. A connection registers the identity it
  carries when that is truthy; the disconnection of a socket unregisters the identity
  that the socket connected with.
\<close>

fun latest_endpoint :: "string option \<Rightarrow> presence_event list \<Rightarrow> string \<Rightarrow> string option" where
  "latest_endpoint start [] u = start"
| "latest_endpoint start (Connect sid userId # older) u =
     (if truthy userId \<and> to_key userId = u then Some sid
      else latest_endpoint start older u)"
| "latest_endpoint start (Disconnect sid userId # older) u =
     (if to_key userId = u then None else latest_endpoint start older u)"

text \<open>What the contract's endpoint reads as in a lookup result, and back.\<close>

fun found :: "string option \<Rightarrow> property_value" where
  "found None = Absent"
| "found (Some sid) = SocketId sid"

fun endpoint_of :: "property_value \<Rightarrow> string option" where
  "endpoint_of (SocketId sid) = Some sid"
| "endpoint_of v = None"

section \<open>Call state of the client (frontend, store/useAuthStore.js)\<close>

text \<open>
  What a handler of the client does to the outside world is returned as a list of
  effects, in the order the handler performs them. Timers are named after the callback
  they run; \<open>SetTimer t ms\<close> stands for \<open>setTimeout\<close> or \<open>setInterval\<close> with that
  callback and delay, \<open>ClearTimer t\<close> for \<open>clearTimeout\<close> or \<open>clearInterval\<close> on its
  handle.
\<close>

datatype timer =
    AnswerTimeout      \<comment> \<open>the 15 s timer armed by \<open>callUser\<close>\<close>
  | ReconnectWait      \<comment> \<open>the 2 s wait inside \<open>handleReconnection\<close>\<close>
  | MediaRetry nat     \<comment> \<open>the 1 s delay before a retry, armed by a \<open>handleMediaError\<close>
                            that read the given value of \<open>retryAttempts\<close>\<close>
  | StatsInterval      \<comment> \<open>the network quality interval\<close>
  | DurationInterval   \<comment> \<open>the call duration interval\<close>

datatype track_kind = VideoTrack | AudioTrack

record media_track =
  track_id :: nat
  kind :: track_kind

type_synonym media_stream = "media_track list"

datatype video_constraint = VideoFlag bool | VideoSpec nat nat nat
  \<comment> \<open>\<open>video: true/false\<close> or \<open>video: {width, height, frameRate}\<close>\<close>

datatype audio_constraint = AudioFlag bool | AudioSpec bool bool
  \<comment> \<open>\<open>audio: true/false\<close> or \<open>audio: {echoCancellation, noiseSuppression}\<close>\<close>

record constraints =
  video :: video_constraint
  audio :: audio_constraint

datatype effect =
    Emit string "jsval list"             \<comment> \<open>\<open>socket.emit(event, ...args)\<close>\<close>
  | ToastError string                    \<comment> \<open>\<open>toast.error(message)\<close>\<close>
  | SetTimer timer nat
  | ClearTimer timer
  | GetUserMedia constraints             \<comment> \<open>\<open>navigator.mediaDevices.getUserMedia\<close>\<close>
  | TrackStop media_track                \<comment> \<open>\<open>track.stop()\<close>\<close>
  | PcCreate nat                         \<comment> \<open>\<open>new RTCPeerConnection\<close>, named by a handle\<close>
  | PcAddTrack nat media_track
  | PcSetRemoteDescription nat jsval
  | PcCreateAnswer nat
  | PcSetLocalDescription nat jsval
  | PcAddIceCandidate nat jsval
  | PcClose nat

text \<open>
  The call-related part of the store. \<open>socket\<close> is \<open>None\<close> for \<open>null\<close> and \<open>Some c\<close> for a
  socket object whose \<open>connected\<close> property is \<open>c\<close>; \<open>caller\<close> is an object (\<open>{}\<close> or
  \<open>{from, name}\<close>).
\<close>

record store =
  authUser :: jsval
  socket :: "bool option"
  callAccepted :: bool
  callEnded :: bool
  caller :: "(string \<times> jsval) list"
  receivingCall :: bool
  callSignal :: jsval

text \<open>
  Property read on a value that an \<open>if\<close> has found truthy: the property of an object,
  \<open>undefined\<close> on a primitive.
\<close>

fun js_field :: "jsval \<Rightarrow> string \<Rightarrow> jsval" where
  "js_field (JObj kvs) k = js_get kvs k"
| "js_field v k = JUndef"

text \<open>The listeners installed by \<open>connectSocket\<close>.\<close>

definition socket_on_callUser :: "store \<Rightarrow> (string \<times> jsval) list \<Rightarrow> store" where
  "socket_on_callUser st data =
     st\<lparr>receivingCall := True,
        caller := [(''from'', js_get data ''from''), (''name'', js_get data ''name'')],
        callSignal := js_get data ''signal'',
        callAccepted := False,
        callEnded := False\<rparr>"

definition socket_on_callAccepted :: "store \<Rightarrow> jsval \<Rightarrow> store" where
  "socket_on_callAccepted st signal = st\<lparr>callAccepted := True, callSignal := signal\<rparr>"

definition socket_on_callEnded :: "store \<Rightarrow> store" where
  "socket_on_callEnded st =
     st\<lparr>callEnded := True, callAccepted := False, receivingCall := False,
        caller := [], callSignal := JNull\<rparr>"

definition socket_on_callRejected :: "store \<Rightarrow> store \<times> effect list" where
  "socket_on_callRejected st =
     (st\<lparr>callEnded := True, callAccepted := False, receivingCall := False,
         caller := [], callSignal := JNull\<rparr>,
      [ToastError ''Call rejected by user''])"

text \<open>The actions of the store.\<close>

definition endCall :: "store \<Rightarrow> store \<times> effect list" where
  "endCall st =
     (st\<lparr>callEnded := True, callAccepted := False, receivingCall := False,
         caller := [], callSignal := JNull\<rparr>,
      if socket st \<noteq> None \<and> truthy (js_get (caller st) ''from'')
      then [Emit ''endCall'' [JObj [(''to'', js_get (caller st) ''from'')]]]
      else [])"

definition callUser :: "store \<Rightarrow> jsval \<Rightarrow> jsval \<Rightarrow> jsval \<Rightarrow> store \<times> effect list" where
  "callUser st userToCall signalData name =
     (if socket st \<noteq> None \<and> truthy (authUser st)
      then (st\<lparr>caller := [(''from'', userToCall), (''name'', name)],
               receivingCall := False,
               callSignal := signalData\<rparr>,
            [Emit ''callUser''
               [JObj [(''userToCall'', userToCall),
                      (''signalData'', signalData),
                      (''from'', js_field (authUser st) ''_id''),
                      (''name'', js_field (authUser st) ''fullName'')]],
             SetTimer AnswerTimeout 15000])
      else (st, []))"

text \<open>
  The callback of the timer armed by \<open>callUser\<close>. The handle of that timer is not kept,
  and no code path clears it.
\<close>

definition answer_timeout_fired :: "store \<Rightarrow> store \<times> effect list" where
  "answer_timeout_fired st =
     (if \<not> callAccepted st \<and> \<not> callEnded st
      then (let (st', effs) = endCall st in (st', ToastError ''Call not answered'' # effs))
      else (st, []))"

definition answerCall :: "store \<Rightarrow> jsval \<Rightarrow> store \<times> effect list" where
  "answerCall st signal =
     (if socket st \<noteq> None \<and> truthy (js_get (caller st) ''from'')
      then (st\<lparr>callAccepted := True\<rparr>,
            [Emit ''answerCall''
               [JObj [(''signal'', signal), (''to'', js_get (caller st) ''from'')]]])
      else (st, []))"

definition sendIceCandidate :: "store \<Rightarrow> jsval \<Rightarrow> jsval \<Rightarrow> effect list" where
  "sendIceCandidate st candidate to =
     (if socket st \<noteq> None \<and> truthy to
      then [Emit ''iceCandidate'' [JObj [(''candidate'', candidate), (''to'', to)]]]
      else [])"

definition rejectCall :: "store \<Rightarrow> store \<times> effect list" where
  "rejectCall st =
     (if socket st \<noteq> None \<and> truthy (js_get (caller st) ''from'')
      then (st\<lparr>receivingCall := False, caller := [], callSignal := JNull\<rparr>,
            [Emit ''rejectCall'' [JObj [(''to'', js_get (caller st) ''from'')]]])
      else (st, []))"

definition resetCallState :: "store \<Rightarrow> store" where
  "resetCallState st =
     st\<lparr>callAccepted := False, callEnded := False, caller := [],
        receivingCall := False, callSignal := JNull\<rparr>"

text \<open>
  \<open>HomePage\<close> (the second document of \<^verbatim>\<open>src/frontend/src/store/useAuthStore.js\<close>,
  from line 252 on) renders the \<open>VideoCall\<close> component exactly when this condition
  holds.
\<close>

definition shows_VideoCall :: "store \<Rightarrow> bool" where
  "shows_VideoCall st = (receivingCall st \<or> (callAccepted st \<and> \<not> callEnded st))"

section \<open>The call component (frontend, components/VideoCall.jsx)\<close>

text \<open>
  The state of the component: the React state variables and the two timer refs that the
  handlers below read or write. Every handler is a function of the state it runs in and
  of the browser's answers; it returns the state after its \<open>set...\<close> calls and its
  effects. This section gives the handlers and the bodies of the effects one by one;
  when React runs them is the subject of the next section.

  A state variable is a constant of one render, and a callback reads the constants of
  the render that created it. The handlers that answer an event are re-created by
  \<open>useCallback\<close> and \<open>useEffect\<close> whenever a variable they read changes, so they read
  the current state. Three closures outlive their render, and what they captured is an
  explicit argument: the stream held by the cleanup of the mount effect, the attempts
  counter read by \<open>handleMediaError\<close>, and what the part of \<open>handleReconnection\<close> after
  its wait reads. \<open>getMediaWithErrorHandling\<close> and \<open>handleMediaError\<close> of one render call
  each other, and the callback of the retry timer calls the \<open>getMediaWithErrorHandling\<close>
  of the render whose \<open>handleMediaError\<close> armed the timer: along a chain of retries the
  counter that is read stays the one of the render that started the chain, while the
  state's counter goes up.

  A media request is asynchronous (a permission query, then \<open>getUserMedia\<close>). It is
  modelled as answered at once, before anything else happens and before React renders
  again: the function below returns the state after the answer.
\<close>

record js_error =
  err_name :: string
  err_message :: string

record media_error =
  message :: string
  canRetry :: bool

datatype call_status = Idle | Connecting | Connected | Disconnected | Failed

datatype network_quality = Unknown | Good | Fair | Poor

record device_errors =
  camera :: bool
  microphone :: bool

record video_call =
  localStream :: "media_stream option"
  localStreamId :: nat
  peerConnection :: "nat option"
  isInitiator :: bool
  mediaError :: "media_error option"
  connectionError :: "string option"
  socketError :: "string option"
  isLoadingMedia :: bool
  permissionDenied :: bool
  retryAttempts :: nat
  callStatus :: call_status
  networkQuality :: network_quality
  isReconnecting :: bool
  callDuration :: nat
  deviceErrors :: device_errors
  reconnectTimeoutRef :: "timer option"
  statsIntervalRef :: "timer option"

text \<open>
  \<open>localStreamId\<close> is not a variable of the code. React compares the dependencies of an
  effect by identity, and every successful media request yields a new stream object;
  \<open>localStreamId\<close> counts the calls of \<open>setLocalStream\<close> and so stands for the identity
  of the object in \<open>localStream\<close>. A peer connection is named by a handle that is new
  for each connection.
\<close>

text \<open>The initial values given to \<open>useState\<close> and \<open>useRef\<close>.\<close>

definition video_call_init :: video_call where
  "video_call_init =
     \<lparr>localStream = None, localStreamId = 0, peerConnection = None, isInitiator = False,
      mediaError = None, connectionError = None, socketError = None,
      isLoadingMedia = False, permissionDenied = False, retryAttempts = 0,
      callStatus = Idle, networkQuality = Unknown, isReconnecting = False,
      callDuration = 0, deviceErrors = \<lparr>camera = False, microphone = False\<rparr>,
      reconnectTimeoutRef = None, statsIntervalRef = None\<rparr>"

definition MAX_RETRY_ATTEMPTS :: nat where
  "MAX_RETRY_ATTEMPTS = 3"

definition STATS_INTERVAL :: nat where
  "STATS_INTERVAL = 1000"

text \<open>
  What the browser answers to one media request: whether \<open>getUserMedia\<close> exists, whether
  \<open>checkMediaPermissions\<close> found a camera and a microphone, and the stream or the error
  that \<open>getUserMedia\<close> yields for given constraints.
\<close>

record media_env =
  supported :: bool
  camera_available :: bool
  microphone_available :: bool
  getUserMedia :: "constraints \<Rightarrow> js_error + media_stream"

definition default_constraints :: constraints where
  "default_constraints = \<lparr>video = VideoFlag True, audio = AudioFlag True\<rparr>"

definition relaxed_constraints :: constraints where
  "relaxed_constraints = \<lparr>video = VideoSpec 640 480 15, audio = AudioSpec True True\<rparr>"

fun wants_video :: "video_constraint \<Rightarrow> bool" where
  "wants_video (VideoFlag b) = b"
| "wants_video (VideoSpec w h r) = True"

fun wants_audio :: "audio_constraint \<Rightarrow> bool" where
  "wants_audio (AudioFlag b) = b"
| "wants_audio (AudioSpec e n) = True"

text \<open>\<open>switch (error.name || error.message)\<close>.\<close>

definition error_key :: "js_error \<Rightarrow> string" where
  "error_key error = (if err_name error \<noteq> [] then err_name error else err_message error)"

text \<open>
  \<open>handleMediaError\<close>; \<open>seen\<close> is the value of \<open>retryAttempts\<close> in its closure. In the
  over-constrained case a retry is scheduled one second later while that value is below
  the maximum.
\<close>

definition handleMediaError ::
  "nat \<Rightarrow> video_call \<Rightarrow> js_error \<Rightarrow> video_call \<times> effect list" where
  "handleMediaError seen vc error =
     (let k = error_key error in
      if k = ''NotAllowedError'' \<or> k = ''PermissionDeniedError'' then
        (vc\<lparr>permissionDenied := True,
            mediaError := Some \<lparr>message = ''Camera and microphone access denied. Please allow permissions in your browser settings and refresh the page.'',
                               canRetry = False\<rparr>\<rparr>, [])
      else if k = ''NotFoundError'' \<or> k = ''DevicesNotFoundError'' then
        (vc\<lparr>mediaError := Some \<lparr>message = ''No camera or microphone found. Please connect your devices and try again.'',
                               canRetry = True\<rparr>\<rparr>, [])
      else if k = ''NotReadableError'' \<or> k = ''TrackStartError'' then
        (vc\<lparr>mediaError := Some \<lparr>message = ''Camera or microphone is already in use by another application. Please close other applications and try again.'',
                               canRetry = True\<rparr>\<rparr>, [])
      else if k = ''OverconstrainedError'' \<or> k = ''ConstraintNotSatisfiedError'' then
        (if seen < MAX_RETRY_ATTEMPTS then
           (vc\<lparr>mediaError := Some \<lparr>message = ''Camera/microphone constraints cannot be satisfied. Trying with lower quality...'',
                                  canRetry = True\<rparr>\<rparr>,
            [SetTimer (MediaRetry seen) 1000])
         else
           (vc\<lparr>mediaError := Some \<lparr>message = ''Failed to get media with available constraints after multiple attempts.'',
                                  canRetry = False\<rparr>\<rparr>, []))
      else if k = ''NotSupportedError'' then
        (vc\<lparr>mediaError := Some \<lparr>message = ''Media constraints are not supported by this browser. Please update your browser.'',
                               canRetry = False\<rparr>\<rparr>, [])
      else if k = ''TypeError'' then
        (vc\<lparr>mediaError := Some \<lparr>message = ''Invalid media constraints. Please refresh the page and try again.'',
                               canRetry = True\<rparr>\<rparr>, [])
      else if k = ''BROWSER_NOT_SUPPORTED'' then
        (vc\<lparr>mediaError := Some \<lparr>message = ''Your browser doesn't support video calling. Please use a modern browser like Chrome, Firefox, or Safari.'',
                               canRetry = False\<rparr>\<rparr>, [])
      else
        (vc\<lparr>mediaError := Some \<lparr>message = ''Media access error: '' @ err_message error @ ''. Please check your device permissions and try again.'',
                               canRetry = True\<rparr>\<rparr>, []))"

text \<open>
  \<open>getMediaWithErrorHandling\<close>. The \<open>catch\<close> branch sets the status to failed and calls
  \<open>handleMediaError\<close>; the \<open>finally\<close> branch clears the loading flag.
\<close>

definition media_failed ::
  "nat \<Rightarrow> video_call \<Rightarrow> js_error \<Rightarrow> video_call \<times> effect list" where
  "media_failed seen vc error =
     (let (vc', effs) = handleMediaError seen (vc\<lparr>callStatus := Failed\<rparr>) error
      in (vc'\<lparr>isLoadingMedia := False\<rparr>, effs))"

definition getMediaWithErrorHandling ::
  "nat \<Rightarrow> video_call \<Rightarrow> constraints \<Rightarrow> media_env \<Rightarrow> video_call \<times> effect list" where
  "getMediaWithErrorHandling seen vc cs env =
     (let vc0 = vc\<lparr>isLoadingMedia := True, mediaError := None, permissionDenied := False,
                   deviceErrors := \<lparr>camera = False, microphone = False\<rparr>\<rparr>
      in if \<not> supported env then
           media_failed seen vc0
             \<lparr>err_name = ''Error'', err_message = ''BROWSER_NOT_SUPPORTED''\<rparr>
         else
           let no_cam = \<not> camera_available env \<and> wants_video (video cs);
               no_mic = \<not> microphone_available env \<and> wants_audio (audio cs);
               cs' = \<lparr>video = (if no_cam then VideoFlag False else video cs),
                      audio = (if no_mic then AudioFlag False else audio cs)\<rparr>;
               vc1 = vc0\<lparr>deviceErrors := \<lparr>camera = no_cam, microphone = no_mic\<rparr>\<rparr>
           in case getUserMedia env cs' of
                Inl error \<Rightarrow>
                  (let (vc', effs) = media_failed seen vc1 error
                   in (vc', GetUserMedia cs' # effs))
              | Inr stream \<Rightarrow>
                  (vc1\<lparr>deviceErrors :=
                         \<lparr>camera = no_cam \<or> (wants_video (video cs')
                                      \<and> filter (\<lambda>t. kind t = VideoTrack) stream = []),
                          microphone = no_mic \<or> (wants_audio (audio cs')
                                      \<and> filter (\<lambda>t. kind t = AudioTrack) stream = [])\<rparr>,
                       localStream := Some stream,
                       localStreamId := localStreamId vc + 1,
                       callStatus := Connected,
                       isLoadingMedia := False\<rparr>,
                   [GetUserMedia cs']))"

text \<open>
  The callback of the retry timer \<open>MediaRetry seen\<close>: the state's counter goes up by one
  (\<open>setRetryAttempts(prev => prev + 1)\<close>) and the media is requested again with the
  relaxed constraints, through the \<open>getMediaWithErrorHandling\<close> that the callback closes
  over, whose error handler reads \<open>seen\<close> again.
\<close>

definition media_retry_fired ::
  "nat \<Rightarrow> video_call \<Rightarrow> media_env \<Rightarrow> video_call \<times> effect list" where
  "media_retry_fired seen vc env =
     getMediaWithErrorHandling seen (vc\<lparr>retryAttempts := retryAttempts vc + 1\<rparr>)
       relaxed_constraints env"

text \<open>The Retry and Request Permissions buttons.\<close>

definition retryMediaAccess :: "video_call \<Rightarrow> media_env \<Rightarrow> video_call \<times> effect list" where
  "retryMediaAccess vc env =
     getMediaWithErrorHandling (retryAttempts vc) (vc\<lparr>retryAttempts := 0\<rparr>)
       default_constraints env"

text \<open>
  The effect commented ``initial media access on component mount'', and its cleanup. The
  cleanup is a closure made when the effect ran: \<open>captured\<close> is the \<open>localStream\<close> of that
  render, the refs are read when the cleanup runs.
\<close>

definition mount_effect :: "video_call \<Rightarrow> media_env \<Rightarrow> video_call \<times> effect list" where
  "mount_effect vc env = getMediaWithErrorHandling (retryAttempts vc) vc default_constraints env"

definition clear_ref :: "timer option \<Rightarrow> effect list" where
  "clear_ref r = (case r of None \<Rightarrow> [] | Some t \<Rightarrow> [ClearTimer t])"

definition stop_tracks :: "media_stream option \<Rightarrow> effect list" where
  "stop_tracks s = (case s of None \<Rightarrow> [] | Some stream \<Rightarrow> map TrackStop stream)"

definition unmount_cleanup :: "media_stream option \<Rightarrow> video_call \<Rightarrow> effect list" where
  "unmount_cleanup captured vc =
     stop_tracks captured @ clear_ref (reconnectTimeoutRef vc) @ clear_ref (statsIntervalRef vc)"

text \<open>
  Reconnection. \<open>handleReconnection\<close> is an async function with one \<open>await\<close>, a wait of
  two seconds; it is split at the wait. \<open>handleReconnection_start\<close> is the part before
  the wait (the handle of the wait's timer is not stored in \<open>reconnectTimeoutRef\<close>, which
  no code assigns), \<open>handleReconnection_resume\<close> the part after it, with the \<open>finally\<close>
  branch. The part after the wait runs in the closure of the render that started the
  attempt: \<open>had_stream\<close> tells whether \<open>localStream\<close> was set in that render, \<open>seen\<close> is
  the \<open>retryAttempts\<close> of that render (read by the \<open>getMediaWithErrorHandling\<close> of the
  closure), \<open>sock\<close> is the store's socket, whose \<open>connected\<close> property is read after the
  wait. Nothing in it reads the state of the peer connection.
\<close>

definition handleReconnection_start :: "video_call \<Rightarrow> video_call \<times> effect list" where
  "handleReconnection_start vc =
     (if isReconnecting vc then (vc, [])
      else (vc\<lparr>isReconnecting := True,
               connectionError := Some ''Connection lost. Attempting to reconnect...''\<rparr>,
            clear_ref (reconnectTimeoutRef vc) @ [SetTimer ReconnectWait 2000]))"

definition handleReconnection_resume ::
  "bool \<Rightarrow> nat \<Rightarrow> video_call \<Rightarrow> bool option \<Rightarrow> media_env \<Rightarrow> video_call \<times> effect list" where
  "handleReconnection_resume had_stream seen vc sock env =
     (if sock = None \<or> sock = Some False then
        (vc\<lparr>socketError := Some ''Socket disconnected. Please refresh the page.'',
            isReconnecting := False\<rparr>, [])
      else
        (let (vc', effs) =
               (if had_stream then (vc, [])
                else getMediaWithErrorHandling seen vc default_constraints env)
         in (vc'\<lparr>connectionError := None, callStatus := Connected, isReconnecting := False\<rparr>,
             effs)))"

text \<open>\<open>pc.onconnectionstatechange\<close> and \<open>pc.oniceconnectionstatechange\<close>.\<close>

definition on_connectionstatechange :: "video_call \<Rightarrow> string \<Rightarrow> video_call \<times> effect list" where
  "on_connectionstatechange vc connectionState =
     (if connectionState = ''connected'' then
        (vc\<lparr>callStatus := Connected, connectionError := None\<rparr>, [])
      else if connectionState = ''disconnected'' then
        handleReconnection_start (vc\<lparr>callStatus := Disconnected\<rparr>)
      else if connectionState = ''failed'' then
        (vc\<lparr>callStatus := Failed,
            connectionError :=
              Some ''Connection failed. Please check your network and try again.''\<rparr>, [])
      else if connectionState = ''closed'' then
        (vc\<lparr>callStatus := Idle\<rparr>, [])
      else (vc, []))"

definition on_iceconnectionstatechange :: "video_call \<Rightarrow> string \<Rightarrow> video_call \<times> effect list" where
  "on_iceconnectionstatechange vc iceConnectionState =
     (if iceConnectionState = ''failed'' then
        (vc\<lparr>connectionError :=
              Some ''Network connection failed. Please check your internet connection.''\<rparr>, [])
      else if iceConnectionState = ''disconnected'' then
        handleReconnection_start vc
      else (vc, []))"

text \<open>
  The effect that sets the peer connection up; \<open>h\<close> names the new connection. The body
  returns at once when there is no socket, no stream or a media error; otherwise it
  creates a connection, adds the tracks and, according to the role, starts a promise
  chain on the connection with \<open>setRemoteDescription\<close>. The third component of the
  result is that chain, if one was started: the connection, and whether the chain is the
  callee's (which goes on to create the answer and to call \<open>answerCall\<close>). A component
  that holds a stream while a call is being received thus answers the call without a
  click. The body registers a cleanup exactly when it has created a connection; the
  cleanup closes that connection.
\<close>

definition peer_connection_runs :: "video_call \<Rightarrow> store \<Rightarrow> bool" where
  "peer_connection_runs vc st =
     (socket st \<noteq> None \<and> localStream vc \<noteq> None \<and> mediaError vc = None)"

definition peer_connection_effect ::
  "video_call \<Rightarrow> store \<Rightarrow> nat \<Rightarrow> video_call \<times> effect list \<times> (nat \<times> bool) option" where
  "peer_connection_effect vc st h =
     (if \<not> peer_connection_runs vc st then (vc, [], None)
      else
        let vc1 = vc\<lparr>callStatus := Connecting, connectionError := None,
                      peerConnection := Some h\<rparr>;
            setup = PcCreate h #
                    map (PcAddTrack h) (case localStream vc of None \<Rightarrow> [] | Some stream \<Rightarrow> stream)
        in if receivingCall st \<and> truthy (callSignal st) \<and> \<not> callAccepted st then
             (vc1\<lparr>isInitiator := False\<rparr>,
              setup @ [PcSetRemoteDescription h (callSignal st)], Some (h, True))
           else if callAccepted st \<and> truthy (callSignal st) \<and> \<not> receivingCall st then
             (vc1\<lparr>isInitiator := True\<rparr>,
              setup @ [PcSetRemoteDescription h (callSignal st)], Some (h, False))
           else (vc1, setup, None))"

text \<open>
  The promise chain is settled. \<open>outcome\<close> is the local description when the chain is
  fulfilled, nothing when it is rejected (the \<open>catch\<close> branch; the rejection is placed
  at the first step of the chain). The callee's chain, fulfilled, creates the answer,
  sets it as the local description and calls \<open>answerCall\<close> of the store with it.
\<close>

definition negotiation_settled ::
  "video_call \<Rightarrow> store \<Rightarrow> nat \<times> bool \<Rightarrow> jsval option \<Rightarrow> video_call \<times> store \<times> effect list" where
  "negotiation_settled vc st chain outcome =
     (case outcome of
        None \<Rightarrow>
          (vc\<lparr>connectionError := Some ''Failed to establish connection. Please try again.''\<rparr>,
           st, [])
      | Some localDescription \<Rightarrow>
          if snd chain then
            (let (st', effs) = answerCall st localDescription
             in (vc, st', [PcCreateAnswer (fst chain),
                           PcSetLocalDescription (fst chain) localDescription] @ effs))
          else (vc, st, []))"

text \<open>\<open>pc.onicecandidate\<close>: a candidate found locally is sent to the other party.\<close>

definition pc_onicecandidate :: "store \<Rightarrow> jsval \<Rightarrow> effect list" where
  "pc_onicecandidate st candidate =
     (if truthy candidate then sendIceCandidate st candidate (js_get (caller st) ''from'')
      else [])"

text \<open>
  The listener for incoming candidates. The effect registers it only when there are a
  socket and a peer connection; it hands the candidate to the connection at once. The
  component has no state in which a candidate could be kept.
\<close>

definition handleIceCandidate :: "nat \<Rightarrow> jsval \<Rightarrow> effect list" where
  "handleIceCandidate pc candidate = [PcAddIceCandidate pc candidate]"

definition addIceCandidate_rejected :: "video_call \<Rightarrow> video_call" where
  "addIceCandidate_rejected vc =
     vc\<lparr>connectionError := Some ''Network connectivity issue. Please check your connection.''\<rparr>"

definition socket_on_iceCandidate ::
  "store \<Rightarrow> video_call option \<Rightarrow> jsval \<Rightarrow> effect list" where
  "socket_on_iceCandidate st mounted candidate =
     (case mounted of
        None \<Rightarrow> []
      | Some vc \<Rightarrow>
          (case peerConnection vc of
             None \<Rightarrow> []
           | Some pc \<Rightarrow> if socket st = None then [] else handleIceCandidate pc candidate))"

text \<open>
  The body of the effect that starts the network quality interval, and of the effect
  that starts the call duration interval.
\<close>

definition network_quality_effect :: "video_call \<Rightarrow> store \<Rightarrow> video_call \<times> effect list" where
  "network_quality_effect vc st =
     (if peerConnection vc \<noteq> None \<and> callAccepted st
      then (vc\<lparr>statsIntervalRef := Some StatsInterval\<rparr>, [SetTimer StatsInterval STATS_INTERVAL])
      else (vc, []))"

definition call_duration_effect :: "store \<Rightarrow> effect list" where
  "call_duration_effect st =
     (if callAccepted st \<and> \<not> callEnded st then [SetTimer DurationInterval 1000] else [])"

text \<open>\<open>handleEndCall\<close>, and the Decline button, which calls \<open>rejectCall\<close> first.\<close>

definition handleEndCall :: "video_call \<Rightarrow> store \<Rightarrow> video_call \<times> store \<times> effect list" where
  "handleEndCall vc st =
     (let (st', effs) = endCall st
      in (vc\<lparr>mediaError := None, connectionError := None, socketError := None,
             callStatus := Idle, permissionDenied := False, retryAttempts := 0,
             isReconnecting := False, callDuration := 0, networkQuality := Unknown,
             deviceErrors := \<lparr>camera = False, microphone = False\<rparr>\<rparr>,
          st',
          stop_tracks (localStream vc)
          @ (case peerConnection vc of None \<Rightarrow> [] | Some pc \<Rightarrow> [PcClose pc])
          @ clear_ref (reconnectTimeoutRef vc)
          @ clear_ref (statsIntervalRef vc)
          @ effs))"

definition click_decline :: "video_call \<Rightarrow> store \<Rightarrow> video_call \<times> store \<times> effect list" where
  "click_decline vc st =
     (let (st1, effs1) = rejectCall st;
          (vc2, st2, effs2) = handleEndCall vc st1
      in (vc2, st2, effs1 @ effs2))"

text \<open>
  What the component renders: the calling screen, the incoming-call dialog (with the
  Decline and Answer buttons), the active-call screen (with the End Call button), or
  nothing.
\<close>

datatype call_view = CallingView | IncomingView | ActiveView | NoView

definition rendered_view :: "store \<Rightarrow> call_view" where
  "rendered_view st =
     (if \<not> receivingCall st \<and> \<not> callAccepted st \<and> \<not> callEnded st
         \<and> truthy (js_get (caller st) ''from'') then CallingView
      else if receivingCall st \<and> \<not> callAccepted st then IncomingView
      else if callAccepted st \<and> \<not> callEnded st then ActiveView
      else NoView)"

section \<open>React: when the effects of the component run\<close>

text \<open>
  \<open>HomePage\<close> and the component read the whole store, so every change of the store or of
  a state variable makes React render again. After a render React mounts the component
  when \<open>HomePage\<close> starts to render it and runs the body of every effect; it unmounts the
  component when \<open>HomePage\<close> stops rendering it and runs the cleanup of every effect that
  registered one; and for a component that stays, it re-runs every effect one of whose
  dependencies differs from the previous render: first the cleanups of these effects,
  then their bodies, both in the order of the source.

  A callback created by \<open>useCallback\<close> is a new function exactly when one of its own
  dependencies has changed. So \<open>getMediaWithErrorHandling\<close> changes with
  \<open>retryAttempts\<close>, and \<open>handleReconnection\<close> changes with \<open>isReconnecting\<close>, the socket,
  \<open>localStream\<close> and \<open>getMediaWithErrorHandling\<close>; the store's actions never change. The
  effects of the component that act on the outside world, and what their dependency
  lists amount to, are:

  \<^item> the call duration effect: \<open>callAccepted\<close>, \<open>callEnded\<close>;
  \<^item> the network quality effect: \<open>peerConnection\<close>, \<open>callAccepted\<close>;
  \<^item> the media effect (``on component mount''): \<open>retryAttempts\<close>;
  \<^item> the peer connection effect: the socket, \<open>localStream\<close>, \<open>receivingCall\<close>,
    \<open>callSignal\<close>, \<open>callAccepted\<close>, \<open>mediaError\<close>, \<open>caller.from\<close>, and through
    \<open>handleReconnection\<close> also \<open>isReconnecting\<close> and \<open>retryAttempts\<close>.

  The effects that only add and remove listeners (socket errors, incoming candidates)
  and the two ringtone effects have no part in the effects modelled here. The listener
  for incoming candidates is re-registered with the current peer connection whenever
  that changes, so an incoming candidate goes to the current connection.

  React compares dependencies by identity; here they are compared as values. For the
  stream the identity is kept in \<open>localStreamId\<close>. A media error is a new object each
  time, but an error that replaces an error only re-runs the peer connection effect to
  no effect (its body returns at once while there is a media error, and the run before
  has left no cleanup). A signal that arrives is taken to be the object already held
  when it is equal to it.

  Beside the state variables, a mounted component has what its pending cleanups and
  pending asynchronous functions hold: the stream in the closure of the media effect's
  cleanup, the connection that the peer connection effect's cleanup closes, whether the
  two interval effects have a cleanup registered, the promise chains started on peer
  connections and not yet settled, and the closure of a \<open>handleReconnection\<close> that is
  waiting.
\<close>

record mounted_call =
  call_state :: video_call
  mount_captured :: "media_stream option"
  pc_to_close :: "nat option"
  stats_running :: bool
  duration_running :: bool
  negotiations :: "(nat \<times> bool) list"
  reconnection :: "(bool \<times> nat) option"

definition mounted_init :: mounted_call where
  "mounted_init =
     \<lparr>call_state = video_call_init, mount_captured = None, pc_to_close = None,
      stats_running = False, duration_running = False, negotiations = [],
      reconnection = None\<rparr>"

text \<open>The dependencies of the four effects, as values that can be compared.\<close>

definition duration_deps :: "store \<Rightarrow> bool \<times> bool" where
  "duration_deps st = (callAccepted st, callEnded st)"

definition stats_deps :: "store \<Rightarrow> mounted_call \<Rightarrow> nat option \<times> bool" where
  "stats_deps st mc = (peerConnection (call_state mc), callAccepted st)"

definition media_deps :: "mounted_call \<Rightarrow> nat" where
  "media_deps mc = retryAttempts (call_state mc)"

definition pc_deps ::
  "store \<Rightarrow> mounted_call \<Rightarrow>
     bool \<times> (nat \<times> media_stream option) \<times> bool \<times> jsval \<times> bool \<times> media_error option
       \<times> jsval \<times> bool \<times> nat" where
  "pc_deps st mc =
     (socket st = None,
      (localStreamId (call_state mc), localStream (call_state mc)),
      receivingCall st, callSignal st, callAccepted st, mediaError (call_state mc),
      js_get (caller st) ''from'',
      isReconnecting (call_state mc), retryAttempts (call_state mc))"

text \<open>The bodies of the effects on a mounted component, and their cleanups.\<close>

definition run_duration_effect :: "store \<Rightarrow> mounted_call \<Rightarrow> mounted_call \<times> effect list" where
  "run_duration_effect st mc =
     (mc\<lparr>duration_running := (callAccepted st \<and> \<not> callEnded st)\<rparr>, call_duration_effect st)"

definition duration_cleanup :: "mounted_call \<Rightarrow> effect list" where
  "duration_cleanup mc = (if duration_running mc then [ClearTimer DurationInterval] else [])"

definition run_stats_effect :: "store \<Rightarrow> mounted_call \<Rightarrow> mounted_call \<times> effect list" where
  "run_stats_effect st mc =
     (let (vc, effs) = network_quality_effect (call_state mc) st
      in (mc\<lparr>call_state := vc,
             stats_running := (peerConnection (call_state mc) \<noteq> None \<and> callAccepted st)\<rparr>,
          effs))"

definition stats_cleanup :: "mounted_call \<Rightarrow> effect list" where
  "stats_cleanup mc =
     (if stats_running mc then clear_ref (statsIntervalRef (call_state mc)) else [])"

definition run_media_effect :: "media_env \<Rightarrow> mounted_call \<Rightarrow> mounted_call \<times> effect list" where
  "run_media_effect env mc =
     (let (vc, effs) = mount_effect (call_state mc) env
      in (mc\<lparr>call_state := vc, mount_captured := localStream (call_state mc)\<rparr>, effs))"

definition media_cleanup :: "mounted_call \<Rightarrow> effect list" where
  "media_cleanup mc = unmount_cleanup (mount_captured mc) (call_state mc)"

definition run_peer_connection_effect ::
  "store \<Rightarrow> nat \<Rightarrow> mounted_call \<Rightarrow> mounted_call \<times> effect list" where
  "run_peer_connection_effect st h mc =
     (let (vc, effs, chain) = peer_connection_effect (call_state mc) st h
      in (mc\<lparr>call_state := vc,
             pc_to_close := (if peer_connection_runs (call_state mc) st then Some h else None),
             negotiations :=
               negotiations mc @ (case chain of None \<Rightarrow> [] | Some n \<Rightarrow> [n])\<rparr>,
          effs))"

definition peer_connection_cleanup :: "mounted_call \<Rightarrow> effect list" where
  "peer_connection_cleanup mc = (case pc_to_close mc of None \<Rightarrow> [] | Some pc \<Rightarrow> [PcClose pc])"

text \<open>The handle for the next connection, after the peer connection effect has run.\<close>

definition next_handle :: "store \<Rightarrow> mounted_call \<Rightarrow> nat \<Rightarrow> nat" where
  "next_handle st mc h = (if peer_connection_runs (call_state mc) st then h + 1 else h)"

text \<open>
  A browser tab: the store, the component while \<open>HomePage\<close> renders it, and the handle
  that the next peer connection will get.
\<close>

record client =
  app_store :: store
  app_call :: "mounted_call option"
  next_pc :: nat

text \<open>
  Mounting: the component starts from the initial values; the bodies of the effects run
  in the order of the source, each reading the values of this first render. The request
  that the media effect makes is answered after the other bodies have run (they are
  synchronous), so its result comes last.
\<close>

definition react_mount ::
  "media_env \<Rightarrow> store \<Rightarrow> nat \<Rightarrow> mounted_call \<times> effect list \<times> nat" where
  "react_mount env st h =
     (let (m1, e1) = run_duration_effect st mounted_init;
          (m2, e2) = run_stats_effect st m1;
          (m3, e3) = run_peer_connection_effect st h m2;
          (m4, e4) = run_media_effect env m3
      in (m4, e1 @ e2 @ e3 @ e4, next_handle st m2 h))"

text \<open>Unmounting: the cleanups, in the order of the source.\<close>

definition react_unmount :: "mounted_call \<Rightarrow> effect list" where
  "react_unmount mc =
     duration_cleanup mc @ stats_cleanup mc @ media_cleanup mc @ peer_connection_cleanup mc"

text \<open>
  A render of a component that stays: \<open>pst\<close> and \<open>pmc\<close> are the store and the component
  as they were rendered the time before. The cleanups of the effects whose dependencies
  have changed run first, then the bodies of these effects; the result of the media
  request comes last.
\<close>

definition react_update ::
  "media_env \<Rightarrow> store \<Rightarrow> mounted_call \<Rightarrow> store \<Rightarrow> mounted_call \<Rightarrow> nat
     \<Rightarrow> mounted_call \<times> effect list \<times> nat" where
  "react_update env pst pmc st mc h =
     (let duration = (duration_deps st = duration_deps pst);
          stats = (stats_deps st mc = stats_deps pst pmc);
          media = (media_deps mc = media_deps pmc);
          pc = (pc_deps st mc = pc_deps pst pmc);
          cleanups =
            (if duration then [] else duration_cleanup mc)
            @ (if stats then [] else stats_cleanup mc)
            @ (if media then [] else media_cleanup mc)
            @ (if pc then [] else peer_connection_cleanup mc);
          (m1, e1) = (if duration then (mc, []) else run_duration_effect st mc);
          (m2, e2) = (if stats then (m1, []) else run_stats_effect st m1);
          (m3, e3) = (if pc then (m2, []) else run_peer_connection_effect st h m2);
          (m4, e4) = (if media then (m3, []) else run_media_effect env m3)
      in (m4, cleanups @ e1 @ e2 @ e3 @ e4, if pc then h else next_handle st m2 h))"

text \<open>
  One render. \<open>prev\<close> is the tab as it was rendered the time before, \<open>c\<close> the tab now.
  The result is the tab as it is rendered now (what the next render compares with), the
  tab after the effects, and the effects.
\<close>

definition react_render ::
  "media_env \<Rightarrow> client \<Rightarrow> client \<Rightarrow> client \<times> client \<times> effect list" where
  "react_render env prev c =
     (case app_call c of
        None \<Rightarrow>
          if shows_VideoCall (app_store c)
          then (let (mc, effs, h) = react_mount env (app_store c) (next_pc c)
                in (c\<lparr>app_call := Some mounted_init\<rparr>,
                    c\<lparr>app_call := Some mc, next_pc := h\<rparr>, effs))
          else (c, c, [])
      | Some mc \<Rightarrow>
          if shows_VideoCall (app_store c)
          then (case app_call prev of
                  None \<Rightarrow> (c, c, [])
                | Some pmc \<Rightarrow>
                    (let (mc', effs, h) =
                           react_update env (app_store prev) pmc (app_store c) mc (next_pc c)
                     in (c, c\<lparr>app_call := Some mc', next_pc := h\<rparr>, effs)))
          else (c, c\<lparr>app_call := None\<rparr>, react_unmount mc))"

text \<open>
  The effects change state variables, which makes React render again. The media effect
  can change what the peer connection effect depends on, and the peer connection effect
  what the network quality effect depends on; no effect changes what an earlier one
  depends on. So after three renders a further one finds no dependency changed and runs
  nothing (\<open>third_render_settles\<close> below), and the next event can compare with the
  state it starts from.
\<close>

definition settle :: "media_env \<Rightarrow> client \<Rightarrow> client \<Rightarrow> client \<times> effect list" where
  "settle env prev c =
     (let (r1, c1, e1) = react_render env prev c;
          (r2, c2, e2) = react_render env r1 c1;
          (r3, c3, e3) = react_render env r2 c2
      in (c3, e1 @ e2 @ e3))"

section \<open>The client as a whole\<close>

text \<open>
  An event is a message from the server, a timer that fires, a promise chain of a peer
  connection that is settled, a state change of the current peer connection, or a click
  (which acts only while its button is rendered). The handler of the event runs first;
  then React renders, as described above, until nothing changes.

  The events are left to the caller of \<open>client_run\<close>: a timer event is meant to be
  given only while that timer is armed. Callbacks of a component that has been
  unmounted are not followed.
\<close>

datatype client_event =
    SocketCallUser "(string \<times> jsval) list"
  | SocketCallAccepted jsval
  | SocketCallEnded
  | SocketCallRejected
  | SocketIceCandidate jsval
  | CallUser jsval jsval jsval
  | AnswerTimeoutFired
  | NegotiationSettled nat "jsval option"
  | ConnectionStateChange string
  | IceConnectionStateChange string
  | ReconnectWaitElapsed
  | MediaRetryFired nat
  | ClickDecline
  | ClickEndCall

text \<open>
  A handler of the component that may start a reconnection attempt: when it has (the
  flag was clear before and is set after), the closure of the attempt is recorded.
\<close>

definition with_reconnection ::
  "mounted_call \<Rightarrow> video_call \<times> effect list \<Rightarrow> mounted_call \<times> effect list" where
  "with_reconnection mc r =
     (mc\<lparr>call_state := fst r,
         reconnection :=
           (if isReconnecting (fst r) \<and> \<not> isReconnecting (call_state mc)
            then Some (localStream (call_state mc) \<noteq> None, retryAttempts (call_state mc))
            else reconnection mc)\<rparr>,
      snd r)"

fun client_handle :: "media_env \<Rightarrow> client \<Rightarrow> client_event \<Rightarrow> client \<times> effect list" where
  "client_handle env c (SocketCallUser data) =
     (c\<lparr>app_store := socket_on_callUser (app_store c) data\<rparr>, [])"
| "client_handle env c (SocketCallAccepted signal) =
     (c\<lparr>app_store := socket_on_callAccepted (app_store c) signal\<rparr>, [])"
| "client_handle env c SocketCallEnded =
     (c\<lparr>app_store := socket_on_callEnded (app_store c)\<rparr>, [])"
| "client_handle env c SocketCallRejected =
     (let (st, effs) = socket_on_callRejected (app_store c) in (c\<lparr>app_store := st\<rparr>, effs))"
| "client_handle env c (SocketIceCandidate candidate) =
     (c, socket_on_iceCandidate (app_store c) (map_option call_state (app_call c)) candidate)"
| "client_handle env c (CallUser userToCall signalData name) =
     (let (st, effs) = callUser (app_store c) userToCall signalData name
      in (c\<lparr>app_store := st\<rparr>, effs))"
| "client_handle env c AnswerTimeoutFired =
     (let (st, effs) = answer_timeout_fired (app_store c) in (c\<lparr>app_store := st\<rparr>, effs))"
| "client_handle env c (NegotiationSettled pc outcome) =
     (case app_call c of
        None \<Rightarrow> (c, [])
      | Some mc \<Rightarrow>
          (case map_of (negotiations mc) pc of
             None \<Rightarrow> (c, [])
           | Some callee \<Rightarrow>
               (let (vc, st, effs) =
                      negotiation_settled (call_state mc) (app_store c) (pc, callee) outcome
                in (c\<lparr>app_store := st,
                       app_call := Some (mc\<lparr>call_state := vc,
                                             negotiations := AList.delete pc (negotiations mc)\<rparr>)\<rparr>,
                    effs))))"
| "client_handle env c (ConnectionStateChange s) =
     (case app_call c of
        None \<Rightarrow> (c, [])
      | Some mc \<Rightarrow>
          if peerConnection (call_state mc) = None then (c, [])
          else (let (mc', effs) =
                      with_reconnection mc (on_connectionstatechange (call_state mc) s)
                in (c\<lparr>app_call := Some mc'\<rparr>, effs)))"
| "client_handle env c (IceConnectionStateChange s) =
     (case app_call c of
        None \<Rightarrow> (c, [])
      | Some mc \<Rightarrow>
          if peerConnection (call_state mc) = None then (c, [])
          else (let (mc', effs) =
                      with_reconnection mc (on_iceconnectionstatechange (call_state mc) s)
                in (c\<lparr>app_call := Some mc'\<rparr>, effs)))"
| "client_handle env c ReconnectWaitElapsed =
     (case app_call c of
        None \<Rightarrow> (c, [])
      | Some mc \<Rightarrow>
          (case reconnection mc of
             None \<Rightarrow> (c, [])
           | Some closure \<Rightarrow>
               (let (vc, effs) =
                      handleReconnection_resume (fst closure) (snd closure) (call_state mc)
                        (socket (app_store c)) env
                in (c\<lparr>app_call := Some (mc\<lparr>call_state := vc, reconnection := None\<rparr>)\<rparr>,
                    effs))))"
| "client_handle env c (MediaRetryFired seen) =
     (case app_call c of
        None \<Rightarrow> (c, [])
      | Some mc \<Rightarrow>
          (let (vc, effs) = media_retry_fired seen (call_state mc) env
           in (c\<lparr>app_call := Some (mc\<lparr>call_state := vc\<rparr>)\<rparr>, effs)))"
| "client_handle env c ClickDecline =
     (case app_call c of
        None \<Rightarrow> (c, [])
      | Some mc \<Rightarrow>
          if rendered_view (app_store c) = IncomingView
          then (let (vc, st, effs) = click_decline (call_state mc) (app_store c)
                in (c\<lparr>app_store := st, app_call := Some (mc\<lparr>call_state := vc\<rparr>)\<rparr>, effs))
          else (c, []))"
| "client_handle env c ClickEndCall =
     (case app_call c of
        None \<Rightarrow> (c, [])
      | Some mc \<Rightarrow>
          if rendered_view (app_store c) = ActiveView
          then (let (vc, st, effs) = handleEndCall (call_state mc) (app_store c)
                in (c\<lparr>app_store := st, app_call := Some (mc\<lparr>call_state := vc\<rparr>)\<rparr>, effs))
          else (c, []))"

text \<open>
  The four listeners of the store call \<open>set\<close> whatever the store holds, so React
  renders after them in any case; after another event it renders when the handler has
  changed something.
\<close>

fun store_listener :: "client_event \<Rightarrow> bool" where
  "store_listener (SocketCallUser data) = True"
| "store_listener (SocketCallAccepted signal) = True"
| "store_listener SocketCallEnded = True"
| "store_listener SocketCallRejected = True"
| "store_listener ev = False"

definition client_step :: "media_env \<Rightarrow> client \<Rightarrow> client_event \<Rightarrow> client \<times> effect list" where
  "client_step env c ev =
     (let (c1, effs1) = client_handle env c ev
      in if store_listener ev \<or> c1 \<noteq> c
         then (let (c2, effs2) = settle env c c1 in (c2, effs1 @ effs2))
         else (c1, effs1))"

text \<open>A run: the events in order, the effects collected in order.\<close>

fun client_run :: "media_env \<Rightarrow> client \<Rightarrow> client_event list \<Rightarrow> client \<times> effect list" where
  "client_run env c [] = (c, [])"
| "client_run env c (ev # evs) =
     (let (c1, effs1) = client_step env c ev;
          (c2, effs2) = client_run env c1 evs
      in (c2, effs1 @ effs2))"

text \<open>
  The timers that a list of effects has armed and not cleared. (No timer fires inside a
  list of effects.)
\<close>

fun armed_timers :: "timer list \<Rightarrow> effect list \<Rightarrow> timer list" where
  "armed_timers acc [] = acc"
| "armed_timers acc (SetTimer t ms # effs) = armed_timers (acc @ [t]) effs"
| "armed_timers acc (ClearTimer t # effs) = armed_timers (removeAll t acc) effs"
| "armed_timers acc (e # effs) = armed_timers acc effs"

text \<open>The messages that a list of effects sends to the server.\<close>

fun emits :: "effect list \<Rightarrow> (string \<times> jsval list) list" where
  "emits [] = []"
| "emits (Emit event args # effs) = (event, args) # emits effs"
| "emits (e # effs) = emits effs"

text \<open>The tracks that a list of effects has stopped.\<close>

definition stopped_tracks :: "effect list \<Rightarrow> media_track list" where
  "stopped_tracks effs = concat (map (\<lambda>e. case e of TrackStop t \<Rightarrow> [t] | _ \<Rightarrow> []) effs)"

section \<open>Example data\<close>

text \<open>
  The store as \<open>create\<close> initialises it, the store of a user who has logged in and whose
  socket is connected, the tab of such a user before any call, and a browser with a
  camera and a microphone that grants access.
\<close>

definition store_init :: store where
  "store_init =
     \<lparr>authUser = JNull, socket = None, callAccepted = False, callEnded = False,
      caller = [], receivingCall = False, callSignal = JNull\<rparr>"

definition logged_in :: "string \<Rightarrow> string \<Rightarrow> store" where
  "logged_in uid fullName =
     store_init\<lparr>authUser := JObj [(''_id'', JStr uid), (''fullName'', JStr fullName)],
                socket := Some True\<rparr>"

definition tab :: "string \<Rightarrow> string \<Rightarrow> client" where
  "tab uid fullName = \<lparr>app_store = logged_in uid fullName, app_call = None, next_pc = 0\<rparr>"

definition camera_and_mic :: media_stream where
  "camera_and_mic = [\<lparr>track_id = 1, kind = VideoTrack\<rparr>, \<lparr>track_id = 2, kind = AudioTrack\<rparr>]"

definition granting_browser :: media_env where
  "granting_browser =
     \<lparr>supported = True, camera_available = True, microphone_available = True,
      getUserMedia = (\<lambda>cs. Inr camera_and_mic)\<rparr>"

text \<open>The invite that bob receives from alice.\<close>

definition invite :: "(string \<times> jsval) list" where
  "invite = [(''signal'', JStr ''offer''), (''from'', JStr ''alice''), (''name'', JStr ''Alice'')]"

text \<open>
  A call in progress on the caller's side: alice has called bob, bob's answer has
  arrived, the component has mounted, acquired the camera and the microphone and set
  the peer connection 0 up, and the connection has reported that it is connected.
\<close>

definition call_in_progress :: "client_event list" where
  "call_in_progress =
     [CallUser (JStr ''bob'') (JStr ''offer'') (JStr ''Bob''),
      SocketCallAccepted (JStr ''answer''),
      NegotiationSettled 0 (Some (JStr ''answer'')),
      ConnectionStateChange ''connected'']"

definition active_call :: client where
  "active_call = fst (client_run granting_browser (tab ''alice'' ''Alice'') call_in_progress)"

text \<open>A browser whose \<open>getUserMedia\<close> always fails with an over-constrained error.\<close>

definition overconstrained_browser :: media_env where
  "overconstrained_browser =
     \<lparr>supported = True, camera_available = True, microphone_available = True,
      getUserMedia = (\<lambda>cs. Inl \<lparr>err_name = ''OverconstrainedError'', err_message = []\<rparr>)\<rparr>"

section \<open>Properties of the registry and the relay\<close>

lemma presence_step_lookup:
  assumes "u \<noteq> ''__proto__''"
  shows "map_of (presence_step m e) u = latest_endpoint (map_of m u) [e] u"
  using assms
  by (cases e) (simp_all add: on_connection_def on_disconnect_def property_write_def
      property_delete_def Let_def update_conv' delete_conv')

lemma latest_endpoint_append:
  "latest_endpoint start (newer @ older) u =
     latest_endpoint (latest_endpoint start older u) newer u"
proof (induction newer)
  case Nil
  show ?case by simp
next
  case (Cons e newer)
  then show ?case by (cases e) simp_all
qed

lemma presence_run_lookup:
  assumes "u \<noteq> ''__proto__''"
  shows "map_of (presence_run m evs) u = latest_endpoint (map_of m u) (rev evs) u"
proof (induction evs arbitrary: m)
  case Nil
  show ?case by (simp add: presence_run_def)
next
  case (Cons e evs)
  have "map_of (presence_run m (e # evs)) u = map_of (presence_run (presence_step m e) evs) u"
    by (simp add: presence_run_def)
  also have "\<dots> = latest_endpoint (map_of (presence_step m e) u) (rev evs) u"
    by (rule Cons.IH)
  also have "\<dots> = latest_endpoint (latest_endpoint (map_of m u) [e] u) (rev evs) u"
    by (simp only: presence_step_lookup[OF assms])
  also have "\<dots> = latest_endpoint (map_of m u) (rev (e # evs)) u"
    by (simp add: latest_endpoint_append)
  finally show ?case .
qed

lemma endpoint_of_found: "endpoint_of (found x) = x"
  by (cases x) simp_all

lemma property_read_ordinary:
  assumes "u \<notin> set object_prototype_names"
  shows "property_read m u = found (map_of m u)"
    and "endpoint_of (property_read m u) = map_of m u"
  using assms by (simp_all add: property_read_def split: option.splits)

text \<open>
  The names that the registry object inherits are never absent, whatever connections
  and disconnections have happened; and no connection registers the name \<open>__proto__\<close>.
\<close>

lemma inherited_name_is_never_absent:
  assumes "u \<in> set object_prototype_names"
  shows "getReceiverSocketId (presence_run m evs) u \<noteq> Absent"
  using assms by (simp add: getReceiverSocketId_def property_read_def split: option.splits)

lemma proto_is_never_registered:
  assumes "map_of m ''__proto__'' = None"
  shows "getReceiverSocketId (presence_run m evs) ''__proto__'' = Inherited ''__proto__''"
proof -
  have step: "\<And>m e. map_of m ''__proto__'' = None \<Longrightarrow>
      map_of (presence_step m e) ''__proto__'' = None"
  proof -
    fix m :: registry and e
    assume "map_of m ''__proto__'' = None"
    then show "map_of (presence_step m e) ''__proto__'' = None"
      by (cases e) (simp_all add: on_connection_def on_disconnect_def property_write_def
          property_delete_def Let_def update_conv' delete_conv')
  qed
  have run: "map_of m ''__proto__'' = None \<Longrightarrow>
      map_of (presence_run m evs) ''__proto__'' = None"
  proof (induction evs arbitrary: m)
    case Nil
    then show ?case by (simp add: presence_run_def)
  next
    case (Cons e evs)
    from Cons.prems have "map_of (presence_step m e) ''__proto__'' = None" by (rule step)
    then have "map_of (presence_run (presence_step m e) evs) ''__proto__'' = None"
      by (rule Cons.IH)
    then show ?case by (simp add: presence_run_def)
  qed
  from run[OF assms] show ?thesis
    by (simp add: getReceiverSocketId_def property_read_def object_prototype_names_def)
qed

text \<open>
  C1. For every sequence of connections and disconnections and every identity that is
  not the name of a member of \<open>Object.prototype\<close>, looking the identity up afterwards
  gives the socket id of the most recent connection that registered the identity, and
  nothing when the most recent event affecting the identity is a disconnection. A
  later connection for the same identity overwrites the earlier socket id (last connect
  wins). The disconnect handler deletes the entry of the identity the socket connected
  with, whichever socket id is stored there: when a superseded old socket disconnects,
  the entry of the newer socket is removed as well.
\<close>

theorem registry_lookup_follows_latest_event:
  assumes "truthy userId"
    and "to_key userId \<notin> set object_prototype_names"
    and "u \<notin> set object_prototype_names"
  shows "getReceiverSocketId (presence_run m evs) u =
           found (latest_endpoint (endpoint_of (getReceiverSocketId m u)) (rev evs) u)
       \<and> getReceiverSocketId
           (presence_run m (evs @ [Connect old userId, Connect new userId])) (to_key userId)
           = SocketId new
       \<and> getReceiverSocketId
           (presence_run m (evs @ [Connect old userId, Connect new userId, Disconnect old userId]))
           (to_key userId) = Absent"
proof -
  have proto: "''__proto__'' \<in> set object_prototype_names"
    by (simp add: object_prototype_names_def)
  have general: "\<And>es v. v \<notin> set object_prototype_names \<Longrightarrow>
      getReceiverSocketId (presence_run m es) v =
        found (latest_endpoint (endpoint_of (getReceiverSocketId m v)) (rev es) v)"
  proof -
    fix es v
    assume v: "v \<notin> set object_prototype_names"
    with proto have "v \<noteq> ''__proto__''" by blast
    then have "map_of (presence_run m es) v = latest_endpoint (map_of m v) (rev es) v"
      by (rule presence_run_lookup)
    with v show "getReceiverSocketId (presence_run m es) v =
        found (latest_endpoint (endpoint_of (getReceiverSocketId m v)) (rev es) v)"
      by (simp add: getReceiverSocketId_def property_read_ordinary endpoint_of_found)
  qed
  have one: "getReceiverSocketId (presence_run m evs) u =
      found (latest_endpoint (endpoint_of (getReceiverSocketId m u)) (rev evs) u)"
    using assms(3) by (rule general)
  have two: "getReceiverSocketId
      (presence_run m (evs @ [Connect old userId, Connect new userId])) (to_key userId)
      = SocketId new"
    using assms(1) by (simp add: general[OF assms(2)])
  have three: "getReceiverSocketId
      (presence_run m (evs @ [Connect old userId, Connect new userId, Disconnect old userId]))
      (to_key userId) = Absent"
    by (simp add: general[OF assms(2)])
  from one two three show ?thesis by blast
qed

theorem registry_lookup_follows_latest_event_witness:
  "truthy (JStr ''alice'')
   \<and> to_key (JStr ''alice'') \<notin> set object_prototype_names
   \<and> ''bob'' \<notin> set object_prototype_names
   \<and> getReceiverSocketId
       (presence_run [] [Connect ''s0'' (JStr ''bob''), Disconnect ''s0'' (JStr ''bob'')]) ''bob''
       = Absent
   \<and> getReceiverSocketId
       (presence_run [] ([] @ [Connect ''s1'' (JStr ''alice''), Connect ''s2'' (JStr ''alice'')]))
       ''alice'' = SocketId ''s2''
   \<and> getReceiverSocketId
       (presence_run []
          ([] @ [Connect ''s1'' (JStr ''alice''), Connect ''s2'' (JStr ''alice''),
                 Disconnect ''s1'' (JStr ''alice'')]))
       ''alice'' = Absent"
  using registry_lookup_follows_latest_event
    [where userId = "JStr ''alice''" and m = "[]" and u = "''bob''" and old = "''s1''"
       and new = "''s2''"
       and evs = "[Connect ''s0'' (JStr ''bob''), Disconnect ''s0'' (JStr ''bob'')]"]
    registry_lookup_follows_latest_event
    [where userId = "JStr ''alice''" and m = "[]" and u = "''bob''" and old = "''s1''"
       and new = "''s2''" and evs = "[]"]
  by (simp add: getReceiverSocketId_def property_read_def object_prototype_names_def)

text \<open>
  C1 as it was claimed fails in two places. The disconnection of a superseded old
  socket does not leave the newer mapping intact: alice connects on socket s1, connects
  again on s2, then s1 disconnects; alice is no longer found, although s2 is still
  connected. And the lookup does not follow the register events for every identity: a
  connection with the identity \<open>__proto__\<close> registers nothing, so that identity is not
  found at the socket it has just connected on.
\<close>

theorem stale_disconnect_removes_newer_mapping:
  "getReceiverSocketId
     (presence_run []
        [Connect ''s1'' (JStr ''alice''), Connect ''s2'' (JStr ''alice''),
         Disconnect ''s1'' (JStr ''alice'')])
     ''alice'' \<noteq> SocketId ''s2''
   \<and> getReceiverSocketId (presence_run [] [Connect ''s3'' (JStr ''__proto__'')]) ''__proto__''
     \<noteq> SocketId ''s3''"
  by (simp add: getReceiverSocketId_def presence_run_def on_connection_def on_disconnect_def
      property_read_def property_write_def property_delete_def object_prototype_names_def)






section \<open>Properties of the store\<close>

text \<open>
  C10. When no caller is recorded in the store (\<open>caller.from\<close> is absent, or more
  generally not truthy), \<open>answerCall\<close> does nothing: it emits no message and returns the
  store as it was, so \<open>callAccepted\<close>, \<open>callEnded\<close>, \<open>caller\<close>, \<open>receivingCall\<close> and
  \<open>callSignal\<close> are unchanged.
\<close>

theorem answerCall_without_caller_is_noop:
  "(map_of (caller st) ''from'' = None \<longrightarrow> answerCall st signal = (st, []))
   \<and> (\<not> truthy (js_get (caller st) ''from'') \<longrightarrow> answerCall st signal = (st, []))"
  by (simp add: answerCall_def js_get_def)

theorem answerCall_without_caller_is_noop_witness:
  "map_of (caller (logged_in ''bob'' ''Bob'')) ''from'' = None
   \<and> \<not> truthy (js_get (caller (logged_in ''bob'' ''Bob'')) ''from'')
   \<and> answerCall (logged_in ''bob'' ''Bob'') (JStr ''answer'') = (logged_in ''bob'' ''Bob'', [])"
  using answerCall_without_caller_is_noop
    [where st = "logged_in ''bob'' ''Bob''" and signal = "JStr ''answer''"]
  by (simp add: logged_in_def store_init_def js_get_def)

text \<open>
  C2. When the 15 second timer armed by \<open>callUser\<close> fires while the call is neither
  accepted nor ended, the caller's store goes to the ended state (\<open>callEnded\<close> is set and
  the call fields are reset) and the notice ``Call not answered'' is shown. The callback
  ends the call through \<open>endCall\<close>, which emits an \<open>endCall\<close> message addressed to the
  recorded remote party whenever a socket and that party are set: after a \<open>callUser\<close> that
  went out, the message is addressed to the callee, and the relay forwards it as
  \<open>callEnded\<close> to the callee's socket when the callee is registered.
\<close>

theorem answer_timeout_ends_call_and_notifies_callee:
  assumes "\<not> callAccepted st" and "\<not> callEnded st"
  shows "answer_timeout_fired st =
           (st\<lparr>callEnded := True, callAccepted := False, receivingCall := False,
               caller := [], callSignal := JNull\<rparr>,
            ToastError ''Call not answered'' #
              (if socket st \<noteq> None \<and> truthy (js_get (caller st) ''from'')
               then [Emit ''endCall'' [JObj [(''to'', js_get (caller st) ''from'')]]]
               else []))
       \<and> (socket st \<noteq> None \<and> truthy (authUser st) \<and> truthy userToCall \<longrightarrow>
            snd (answer_timeout_fired (fst (callUser st userToCall signalData name))) =
              [ToastError ''Call not answered'',
               Emit ''endCall'' [JObj [(''to'', userToCall)]]])
       \<and> (map_of m (to_key userToCall) = Some socketId \<and> socketId \<noteq> [] \<longrightarrow>
            relay m sid ''endCall'' [(''to'', userToCall)] =
              [IoToEmit (SocketRoom socketId) ''callEnded'' []])"
  using assms
  by (simp add: answer_timeout_fired_def endCall_def callUser_def js_get_def relay_def
      on_endCall_def lookup_truthy_def property_read_def)

theorem answer_timeout_ends_call_and_notifies_callee_witness:
  "\<not> callAccepted (logged_in ''alice'' ''Alice'')
   \<and> \<not> callEnded (logged_in ''alice'' ''Alice'')
   \<and> socket (logged_in ''alice'' ''Alice'') \<noteq> None
   \<and> truthy (authUser (logged_in ''alice'' ''Alice''))
   \<and> truthy (JStr ''bob'')
   \<and> answer_timeout_fired (logged_in ''alice'' ''Alice'') =
       ((logged_in ''alice'' ''Alice'')\<lparr>callEnded := True\<rparr>, [ToastError ''Call not answered''])
   \<and> snd (answer_timeout_fired
        (fst (callUser (logged_in ''alice'' ''Alice'') (JStr ''bob'') (JStr ''offer'')
                (JStr ''Bob'')))) =
       [ToastError ''Call not answered'', Emit ''endCall'' [JObj [(''to'', JStr ''bob'')]]]
   \<and> map_of [(''alice'', ''s1''), (''bob'', ''s2'')] (to_key (JStr ''bob'')) = Some ''s2''
   \<and> ''s2'' \<noteq> []
   \<and> relay [(''alice'', ''s1''), (''bob'', ''s2'')] ''s1'' ''endCall'' [(''to'', JStr ''bob'')]
       = [IoToEmit (SocketRoom ''s2'') ''callEnded'' []]"
  using answer_timeout_ends_call_and_notifies_callee
    [where st = "logged_in ''alice'' ''Alice''" and userToCall = "JStr ''bob''"
       and signalData = "JStr ''offer''" and name = "JStr ''Bob''"
       and m = "[(''alice'', ''s1''), (''bob'', ''s2'')]" and socketId = "''s2''"
       and sid = "''s1''"]
  by (simp add: logged_in_def store_init_def js_get_def)

text \<open>
  C2 as it was claimed (no further wire message is sent to the callee) fails: alice
  calls bob and the timer fires unanswered; the callback emits \<open>endCall\<close> addressed to
  bob, and the relay, with bob registered, forwards \<open>callEnded\<close> to bob's socket.
\<close>

theorem answer_timeout_sends_endCall_to_callee:
  "snd (client_step granting_browser
          (fst (client_run granting_browser (tab ''alice'' ''Alice'')
                  [CallUser (JStr ''bob'') (JStr ''offer'') (JStr ''Bob'')]))
          AnswerTimeoutFired)
     = [ToastError ''Call not answered'', Emit ''endCall'' [JObj [(''to'', JStr ''bob'')]]]
   \<and> relay [(''alice'', ''s1''), (''bob'', ''s2'')] ''s1'' ''endCall'' [(''to'', JStr ''bob'')]
     = [IoToEmit (SocketRoom ''s2'') ''callEnded'' []]"
  by (simp add: tab_def logged_in_def store_init_def callUser_def answer_timeout_fired_def
      endCall_def js_get_def relay_def on_endCall_def lookup_truthy_def property_read_def
      client_step_def settle_def react_render_def shows_VideoCall_def)

text \<open>
  The answer timer outlives the call it was armed for. Alice calls bob, bob answers and
  alice hangs up; carol's invite then arrives, and when the old timer fires it ends
  carol's call and tells carol so.
\<close>

lemma stale_answer_timer_ends_a_later_call:
  "snd (answer_timeout_fired
     (socket_on_callUser
        (fst (endCall
           (socket_on_callAccepted
              (fst (callUser (logged_in ''alice'' ''Alice'') (JStr ''bob'') (JStr ''offer'')
                      (JStr ''Bob'')))
              (JStr ''answer''))))
        [(''signal'', JStr ''offer2''), (''from'', JStr ''carol''), (''name'', JStr ''Carol'')]))
   = [ToastError ''Call not answered'', Emit ''endCall'' [JObj [(''to'', JStr ''carol'')]]]"
  by (simp add: logged_in_def store_init_def callUser_def socket_on_callAccepted_def
      endCall_def socket_on_callUser_def answer_timeout_fired_def js_get_def)

section \<open>Auxiliary facts about effects\<close>

lemma emits_append: "emits (xs @ ys) = emits xs @ emits ys"
  by (induction xs rule: emits.induct) simp_all

lemma emits_map_TrackStop: "emits (map TrackStop stream) = []"
  by (induction stream) simp_all

lemma emits_stop_tracks: "emits (stop_tracks s) = []"
  by (cases s) (simp_all add: stop_tracks_def emits_map_TrackStop)

lemma emits_clear_ref: "emits (clear_ref r) = []"
  by (cases r) (simp_all add: clear_ref_def)

lemma stopped_tracks_Nil: "stopped_tracks [] = []"
  by (simp add: stopped_tracks_def)

lemma stopped_tracks_Cons:
  "stopped_tracks (e # effs) =
     (case e of TrackStop t \<Rightarrow> [t] | _ \<Rightarrow> []) @ stopped_tracks effs"
  by (simp add: stopped_tracks_def)

lemma stopped_tracks_append: "stopped_tracks (xs @ ys) = stopped_tracks xs @ stopped_tracks ys"
  by (simp add: stopped_tracks_def)

lemma stopped_tracks_stop_tracks:
  "stopped_tracks (stop_tracks s) = (case s of None \<Rightarrow> [] | Some stream \<Rightarrow> stream)"
proof (cases s)
  case None
  then show ?thesis by (simp add: stop_tracks_def stopped_tracks_def)
next
  case (Some stream)
  have "stopped_tracks (map TrackStop stream) = stream"
    by (induction stream) (simp_all add: stopped_tracks_Nil stopped_tracks_Cons)
  with Some show ?thesis by (simp add: stop_tracks_def)
qed

lemma stopped_tracks_clear_ref: "stopped_tracks (clear_ref r) = []"
  by (cases r) (simp_all add: clear_ref_def stopped_tracks_def)

lemma stopped_tracks_endCall: "stopped_tracks (snd (endCall st)) = []"
  by (simp add: endCall_def stopped_tracks_def)

lemma stopped_tracks_handleEndCall:
  "stopped_tracks (snd (snd (handleEndCall vc st))) =
     (case localStream vc of None \<Rightarrow> [] | Some stream \<Rightarrow> stream)"
proof -
  obtain st' effs where e: "endCall st = (st', effs)" by (cases "endCall st")
  have "stopped_tracks effs = []" using stopped_tracks_endCall[of st] e by simp
  moreover have
    "stopped_tracks (case peerConnection vc of None \<Rightarrow> [] | Some pc \<Rightarrow> [PcClose pc]) = []"
    by (cases "peerConnection vc") (simp_all add: stopped_tracks_def)
  ultimately show ?thesis
    by (simp add: handleEndCall_def e stopped_tracks_append stopped_tracks_stop_tracks
        stopped_tracks_clear_ref)
qed

lemma emits_handleEndCall:
  "emits (snd (snd (handleEndCall vc st))) = emits (snd (endCall st))"
proof -
  obtain st' effs where e: "endCall st = (st', effs)" by (cases "endCall st")
  have "emits (case peerConnection vc of None \<Rightarrow> [] | Some pc \<Rightarrow> [PcClose pc]) = []"
    by (cases "peerConnection vc") simp_all
  then show ?thesis
    by (simp add: handleEndCall_def e emits_append emits_stop_tracks emits_clear_ref)
qed

lemma handleEndCall_store: "fst (snd (handleEndCall vc st)) = fst (endCall st)"
  by (simp add: handleEndCall_def split: prod.splits)

lemma getMedia_requests:
  assumes "supported env"
  shows "\<exists>cs rest.
           snd (getMediaWithErrorHandling seen vc constraints env) = GetUserMedia cs # rest"
  using assms
  by (simp add: getMediaWithErrorHandling_def Let_def case_prod_beta split: sum.splits)

lemma decline_effects:
  "emits (snd (snd (click_decline vc st))) =
     (if socket st \<noteq> None \<and> truthy (js_get (caller st) ''from'')
      then [(''rejectCall'', [JObj [(''to'', js_get (caller st) ''from'')]])] else [])"
  "stopped_tracks (snd (snd (click_decline vc st))) =
     (case localStream vc of None \<Rightarrow> [] | Some stream \<Rightarrow> stream)"
  "callEnded (fst (snd (click_decline vc st)))"
  "rendered_view (fst (snd (click_decline vc st))) = NoView"
proof -
  obtain st1 effs1 where r: "rejectCall st = (st1, effs1)" by (cases "rejectCall st")
  obtain vc2 st2 effs2 where h: "handleEndCall vc st1 = (vc2, st2, effs2)"
    by (cases "handleEndCall vc st1")
  have cd: "click_decline vc st = (vc2, st2, effs1 @ effs2)"
    by (simp add: click_decline_def r h)
  have e1: "emits effs1 = (if socket st \<noteq> None \<and> truthy (js_get (caller st) ''from'')
      then [(''rejectCall'', [JObj [(''to'', js_get (caller st) ''from'')]])] else [])"
    using r by (auto simp: rejectCall_def split: if_splits)
  have s1: "stopped_tracks effs1 = []"
    using r by (auto simp: rejectCall_def stopped_tracks_def split: if_splits)
  have nofrom: "socket st1 = None \<or> \<not> truthy (js_get (caller st1) ''from'')"
    using r by (auto simp: rejectCall_def js_get_def split: if_splits)
  have e2: "emits effs2 = []"
    using emits_handleEndCall[of vc st1] h nofrom by (auto simp: endCall_def)
  have s2: "stopped_tracks effs2 = (case localStream vc of None \<Rightarrow> [] | Some stream \<Rightarrow> stream)"
    using stopped_tracks_handleEndCall[of vc st1] h by simp
  have st2: "st2 = fst (endCall st1)"
    using handleEndCall_store[of vc st1] h by simp
  show "emits (snd (snd (click_decline vc st))) =
     (if socket st \<noteq> None \<and> truthy (js_get (caller st) ''from'')
      then [(''rejectCall'', [JObj [(''to'', js_get (caller st) ''from'')]])] else [])"
    by (simp add: cd emits_append e1 e2)
  show "stopped_tracks (snd (snd (click_decline vc st))) =
     (case localStream vc of None \<Rightarrow> [] | Some stream \<Rightarrow> stream)"
    by (simp add: cd stopped_tracks_append s1 s2)
  show "callEnded (fst (snd (click_decline vc st)))"
    by (simp add: cd st2 endCall_def)
  show "rendered_view (fst (snd (click_decline vc st))) = NoView"
    by (simp add: cd st2 endCall_def rendered_view_def)
qed

section \<open>What the handlers and the effects leave unchanged\<close>

lemma emits_react_unmount: "emits (react_unmount mc) = []"
proof -
  have "emits (peer_connection_cleanup mc) = []"
    by (cases "pc_to_close mc") (simp_all add: peer_connection_cleanup_def)
  then show ?thesis
    by (simp add: react_unmount_def duration_cleanup_def stats_cleanup_def media_cleanup_def
        unmount_cleanup_def emits_append emits_stop_tracks emits_clear_ref)
qed

lemma stopped_tracks_react_unmount:
  "stopped_tracks (react_unmount mc) =
     (case mount_captured mc of None \<Rightarrow> [] | Some stream \<Rightarrow> stream)"
proof -
  have "stopped_tracks (peer_connection_cleanup mc) = []"
    by (cases "pc_to_close mc") (simp_all add: peer_connection_cleanup_def stopped_tracks_def)
  moreover have "stopped_tracks (duration_cleanup mc) = []"
    by (simp add: duration_cleanup_def stopped_tracks_def)
  ultimately show ?thesis
    by (simp add: react_unmount_def stats_cleanup_def media_cleanup_def unmount_cleanup_def
        stopped_tracks_append stopped_tracks_stop_tracks stopped_tracks_clear_ref
        stopped_tracks_Nil)
qed

lemma handleMediaError_frame:
  "retryAttempts (fst (handleMediaError seen v e)) = retryAttempts v"
  "peerConnection (fst (handleMediaError seen v e)) = peerConnection v"
  "isReconnecting (fst (handleMediaError seen v e)) = isReconnecting v"
  by (simp_all add: handleMediaError_def Let_def)

lemma media_failed_frame:
  "retryAttempts (fst (media_failed seen v e)) = retryAttempts v"
  "peerConnection (fst (media_failed seen v e)) = peerConnection v"
  "isReconnecting (fst (media_failed seen v e)) = isReconnecting v"
  by (simp_all add: media_failed_def case_prod_beta handleMediaError_frame)

lemma getMedia_frame:
  "retryAttempts (fst (getMediaWithErrorHandling seen v cs env)) = retryAttempts v"
  "peerConnection (fst (getMediaWithErrorHandling seen v cs env)) = peerConnection v"
  "isReconnecting (fst (getMediaWithErrorHandling seen v cs env)) = isReconnecting v"
  by (simp_all add: getMediaWithErrorHandling_def Let_def case_prod_beta media_failed_frame
      split: sum.splits)

lemma peer_connection_effect_frame:
  "retryAttempts (fst (peer_connection_effect v st h)) = retryAttempts v"
  "isReconnecting (fst (peer_connection_effect v st h)) = isReconnecting v"
  "localStream (fst (peer_connection_effect v st h)) = localStream v"
  "localStreamId (fst (peer_connection_effect v st h)) = localStreamId v"
  "mediaError (fst (peer_connection_effect v st h)) = mediaError v"
  by (simp_all add: peer_connection_effect_def Let_def)

text \<open>Rendering does not change the store; the four cases of a render.\<close>

lemma render_store:
  "app_store (fst (react_render env p c)) = app_store c"
  "app_store (fst (snd (react_render env p c))) = app_store c"
  by (simp_all add: react_render_def case_prod_beta Let_def split: option.splits)

lemma settle_store: "app_store (fst (settle env p c)) = app_store c"
  by (simp add: settle_def case_prod_beta render_store)

lemma client_step_store:
  "app_store (fst (client_step env c ev)) = app_store (fst (client_handle env c ev))"
  by (simp add: client_step_def case_prod_beta settle_store)

lemma render_mount:
  assumes "app_call c = None" and "shows_VideoCall (app_store c)"
  shows "react_render env p c =
           (c\<lparr>app_call := Some mounted_init\<rparr>,
            c\<lparr>app_call := Some (fst (react_mount env (app_store c) (next_pc c))),
              next_pc := snd (snd (react_mount env (app_store c) (next_pc c)))\<rparr>,
            fst (snd (react_mount env (app_store c) (next_pc c))))"
  using assms by (simp add: react_render_def case_prod_beta)

lemma render_update:
  assumes "app_call c = Some mc" and "shows_VideoCall (app_store c)"
    and "app_call p = Some pmc"
  shows "react_render env p c =
           (c,
            c\<lparr>app_call :=
                Some (fst (react_update env (app_store p) pmc (app_store c) mc (next_pc c))),
              next_pc :=
                snd (snd (react_update env (app_store p) pmc (app_store c) mc (next_pc c)))\<rparr>,
            fst (snd (react_update env (app_store p) pmc (app_store c) mc (next_pc c))))"
  using assms by (simp add: react_render_def case_prod_beta)

lemma render_unmount:
  assumes "app_call c = Some mc" and "\<not> shows_VideoCall (app_store c)"
  shows "react_render env p c = (c, c\<lparr>app_call := None\<rparr>, react_unmount mc)"
  using assms by (simp add: react_render_def)

lemma render_nothing:
  assumes "app_call c = None" and "\<not> shows_VideoCall (app_store c)"
  shows "react_render env p c = (c, c, [])"
  using assms by (simp add: react_render_def)

text \<open>
  When the store stops showing the component, the renders that follow a handler unmount
  it and do nothing else.
\<close>

lemma settle_unmounts:
  assumes "app_call c = Some mc" and "\<not> shows_VideoCall (app_store c)"
  shows "settle env p c = (c\<lparr>app_call := None\<rparr>, react_unmount mc)"
  using assms by (simp add: settle_def render_unmount render_nothing)

text \<open>
  What an incoming invite makes a tab without a component do: the component mounts and
  requests the media; the peer connection effect then runs on the result.
\<close>

lemma invite_effects:
  assumes "app_call c = None"
  shows "snd (client_step env c (SocketCallUser data))
           = snd (getMediaWithErrorHandling 0 video_call_init default_constraints env)
             @ fst (snd (peer_connection_effect
                  (fst (getMediaWithErrorHandling 0 video_call_init default_constraints env))
                  (socket_on_callUser (app_store c) data) (next_pc c)))"
proof -
  let ?st = "socket_on_callUser (app_store c) data"
  let ?g = "getMediaWithErrorHandling 0 video_call_init default_constraints env"
  let ?m = "mounted_init\<lparr>call_state := fst ?g\<rparr>"
  let ?m' = "fst (run_peer_connection_effect ?st (next_pc c) ?m)"
  let ?c1 = "c\<lparr>app_store := ?st\<rparr>"
  have vis: "shows_VideoCall ?st" by (simp add: shows_VideoCall_def socket_on_callUser_def)
  have acc: "\<not> callAccepted ?st" by (simp add: socket_on_callUser_def)
  have mount: "react_mount env ?st (next_pc c) = (?m, snd ?g, next_pc c)"
    using acc
    by (simp add: react_mount_def run_duration_effect_def call_duration_effect_def
        run_stats_effect_def network_quality_effect_def run_peer_connection_effect_def
        peer_connection_effect_def peer_connection_runs_def run_media_effect_def
        mount_effect_def mounted_init_def video_call_init_def case_prod_beta next_handle_def)
  have r1: "react_render env c ?c1 =
      (?c1\<lparr>app_call := Some mounted_init\<rparr>, ?c1\<lparr>app_call := Some ?m\<rparr>, snd ?g)"
    using assms vis
    by (simp add: render_mount mount)
  have idle: "\<not> peer_connection_runs (fst ?g) ?st \<Longrightarrow>
      run_peer_connection_effect ?st (next_pc c) ?m = (?m, [])"
    by (simp add: run_peer_connection_effect_def peer_connection_effect_def mounted_init_def)
  have same: "pc_deps ?st ?m = pc_deps ?st mounted_init \<Longrightarrow>
      \<not> peer_connection_runs (fst ?g) ?st"
    by (simp add: pc_deps_def mounted_init_def video_call_init_def peer_connection_runs_def)
  have u2: "react_update env ?st mounted_init ?st ?m (next_pc c) =
      (?m', snd (run_peer_connection_effect ?st (next_pc c) ?m),
       next_handle ?st ?m (next_pc c))"
    using idle same
    by (simp add: react_update_def Let_def case_prod_beta stats_deps_def media_deps_def
        getMedia_frame mounted_init_def video_call_init_def peer_connection_cleanup_def
        next_handle_def)
  have r2: "react_render env (?c1\<lparr>app_call := Some mounted_init\<rparr>)
              (?c1\<lparr>app_call := Some ?m\<rparr>) =
      (?c1\<lparr>app_call := Some ?m\<rparr>,
       ?c1\<lparr>app_call := Some ?m', next_pc := next_handle ?st ?m (next_pc c)\<rparr>,
       snd (run_peer_connection_effect ?st (next_pc c) ?m))"
    using vis by (simp add: render_update[where mc = ?m and pmc = mounted_init] u2)
  have u3: "fst (snd (react_update env ?st ?m ?st ?m' h)) = []" for h
    using acc
    by (simp add: react_update_def Let_def case_prod_beta stats_deps_def media_deps_def
        pc_deps_def run_peer_connection_effect_def peer_connection_effect_frame
        stats_cleanup_def run_stats_effect_def network_quality_effect_def mounted_init_def)
  have r3: "snd (snd (react_render env (?c1\<lparr>app_call := Some ?m\<rparr>)
      (?c1\<lparr>app_call := Some ?m', next_pc := n\<rparr>))) = []" for n
    using vis by (simp add: render_update[where mc = ?m' and pmc = ?m] u3)
  have "snd (settle env c ?c1) = snd ?g @ snd (run_peer_connection_effect ?st (next_pc c) ?m)"
    by (simp add: settle_def r1 r2 r3 case_prod_beta)
  then show ?thesis
    by (simp add: client_step_def case_prod_beta run_peer_connection_effect_def)
qed

text \<open>
  What the Decline button does as a whole: the handler, then the unmount that follows
  because the store no longer shows the component.
\<close>

lemma decline_hides:
  "\<not> receivingCall (fst (snd (click_decline vc st)))"
  "\<not> shows_VideoCall (fst (snd (click_decline vc st)))"
  by (simp_all add: click_decline_def handleEndCall_def endCall_def shows_VideoCall_def
      case_prod_beta)

lemma decline_step:
  assumes "rendered_view st = IncomingView"
  shows "client_step env \<lparr>app_store = st, app_call = Some mc, next_pc = n\<rparr> ClickDecline
           = (\<lparr>app_store = fst (snd (click_decline (call_state mc) st)), app_call = None,
               next_pc = n\<rparr>,
              snd (snd (click_decline (call_state mc) st))
              @ react_unmount (mc\<lparr>call_state := fst (click_decline (call_state mc) st)\<rparr>))"
proof -
  let ?d = "click_decline (call_state mc) st"
  let ?c = "\<lparr>app_store = st, app_call = Some mc, next_pc = n\<rparr>"
  let ?mc' = "mc\<lparr>call_state := fst ?d\<rparr>"
  let ?c1 = "\<lparr>app_store = fst (snd ?d), app_call = Some ?mc', next_pc = n\<rparr>"
  have h: "client_handle env ?c ClickDecline = (?c1, snd (snd ?d))"
    using assms by (simp add: case_prod_beta)
  have ringing: "receivingCall st"
    using assms by (simp add: rendered_view_def split: if_splits)
  have "\<not> receivingCall (fst (snd ?d))"
    by (rule decline_hides)
  with ringing have changed: "?c1 \<noteq> ?c" by auto
  have hidden: "\<not> shows_VideoCall (app_store ?c1)"
    by (simp add: decline_hides)
  have "settle env ?c ?c1 = (?c1\<lparr>app_call := None\<rparr>, react_unmount ?mc')"
    using hidden by (simp add: settle_unmounts[where mc = ?mc'])
  with h changed show ?thesis
    by (simp add: client_step_def)
qed

text \<open>
  No effect changes what an earlier effect depends on, and none changes what it depends
  on itself; so the renders that follow a handler come to rest.
\<close>

lemma network_quality_effect_frame:
  "retryAttempts (fst (network_quality_effect v st)) = retryAttempts v"
  "isReconnecting (fst (network_quality_effect v st)) = isReconnecting v"
  "localStream (fst (network_quality_effect v st)) = localStream v"
  "localStreamId (fst (network_quality_effect v st)) = localStreamId v"
  "mediaError (fst (network_quality_effect v st)) = mediaError v"
  "peerConnection (fst (network_quality_effect v st)) = peerConnection v"
  by (simp_all add: network_quality_effect_def)

lemma effects_keep_counter:
  "media_deps (fst (run_duration_effect st mc)) = media_deps mc"
  "media_deps (fst (run_stats_effect st mc)) = media_deps mc"
  "media_deps (fst (run_peer_connection_effect st h mc)) = media_deps mc"
  "media_deps (fst (run_media_effect env mc)) = media_deps mc"
  by (simp_all add: media_deps_def run_duration_effect_def run_stats_effect_def
      run_peer_connection_effect_def run_media_effect_def mount_effect_def case_prod_beta
      network_quality_effect_frame peer_connection_effect_frame getMedia_frame)

lemma effects_keep_pc_deps:
  "pc_deps st (fst (run_duration_effect st' mc)) = pc_deps st mc"
  "pc_deps st (fst (run_stats_effect st' mc)) = pc_deps st mc"
  "pc_deps st (fst (run_peer_connection_effect st' h mc)) = pc_deps st mc"
  by (simp_all add: pc_deps_def run_duration_effect_def run_stats_effect_def
      run_peer_connection_effect_def case_prod_beta
      network_quality_effect_frame peer_connection_effect_frame)

lemma effects_keep_stats_deps:
  "stats_deps st (fst (run_duration_effect st' mc)) = stats_deps st mc"
  "stats_deps st (fst (run_stats_effect st' mc)) = stats_deps st mc"
  by (simp_all add: stats_deps_def run_duration_effect_def run_stats_effect_def
      case_prod_beta network_quality_effect_frame)

lemma update_keeps_counter:
  "media_deps (fst (react_update env pst pmc st mc h)) = media_deps mc"
  by (simp add: react_update_def Let_def case_prod_beta effects_keep_counter)

lemma update_keeps_pc_deps:
  assumes "media_deps mc = media_deps pmc"
  shows "pc_deps st (fst (react_update env pst pmc st mc h)) = pc_deps st mc"
  using assms by (simp add: react_update_def Let_def case_prod_beta effects_keep_pc_deps)

lemma update_keeps_stats_deps:
  assumes "media_deps mc = media_deps pmc" and "pc_deps st mc = pc_deps pst pmc"
  shows "stats_deps st (fst (react_update env pst pmc st mc h)) = stats_deps st mc"
  using assms by (simp add: react_update_def Let_def case_prod_beta effects_keep_stats_deps)

lemma update_nothing:
  assumes "media_deps mc = media_deps pmc" and "pc_deps st mc = pc_deps pst pmc"
    and "stats_deps st mc = stats_deps pst pmc" and "duration_deps st = duration_deps pst"
  shows "react_update env pst pmc st mc h = (mc, [], h)"
  using assms by (simp add: react_update_def)

lemma mount_keeps_counter:
  "media_deps (fst (react_mount env st h)) = media_deps mounted_init"
  by (simp add: react_mount_def case_prod_beta effects_keep_counter)


text \<open>
  After three renders in a row, a fourth one changes nothing and has no effect.
\<close>

lemma third_render_settles:
  assumes one: "react_render env prev c = (r1, c1, e1)"
    and two: "react_render env r1 c1 = (r2, c2, e2)"
    and three: "react_render env r2 c2 = (r3, c3, e3)"
  shows "react_render env r3 c3 = (c3, c3, [])"
proof -
  consider
    (quiet) "app_call c1 = None" "\<not> shows_VideoCall (app_store c1)"
  | (live) mc1 pm1 where "app_call c1 = Some mc1" "app_call r1 = Some pm1"
      "shows_VideoCall (app_store c1)" "app_store r1 = app_store c1"
      "media_deps mc1 = media_deps pm1"
  proof (cases "app_call c")
    case None
    show ?thesis
    proof (cases "shows_VideoCall (app_store c)")
      case True
      from one render_mount[OF None True, of env prev]
      have "app_call c1 = Some (fst (react_mount env (app_store c) (next_pc c)))"
        and "app_call r1 = Some mounted_init"
        and "app_store c1 = app_store c" and "app_store r1 = app_store c"
        by auto
      with True mount_keeps_counter[of env "app_store c" "next_pc c"] show ?thesis
        by (intro live[of "fst (react_mount env (app_store c) (next_pc c))" mounted_init])
          auto
    next
      case False
      from one render_nothing[OF None False, of env prev] have "c1 = c" by auto
      with None False show ?thesis by (intro quiet) auto
    qed
  next
    case (Some mc)
    show ?thesis
    proof (cases "shows_VideoCall (app_store c)")
      case False
      from one render_unmount[OF Some False, of env prev]
      have "c1 = c\<lparr>app_call := None\<rparr>" by auto
      with False show ?thesis by (intro quiet) auto
    next
      case True
      show ?thesis
      proof (cases "app_call prev")
        case None
        with one Some True have "r1 = c" "c1 = c" by (auto simp: react_render_def)
        with Some True show ?thesis by (intro live[of mc mc]) auto
      next
        case (Some pmc)
        from one render_update[OF \<open>app_call c = Some mc\<close> True Some, of env]
        have "r1 = c"
          and "app_call c1 =
            Some (fst (react_update env (app_store prev) pmc (app_store c) mc (next_pc c)))"
          and "app_store c1 = app_store c"
          by auto
        with True \<open>app_call c = Some mc\<close>
          update_keeps_counter[of env "app_store prev" pmc "app_store c" mc "next_pc c"]
        show ?thesis
          by (intro live[of "fst (react_update env (app_store prev) pmc (app_store c) mc
                                    (next_pc c))" mc])
            auto
      qed
    qed
  qed
  then show ?thesis
  proof cases
    case quiet
    from two render_nothing[OF quiet, of env r1] have "c2 = c1" by auto
    with three render_nothing[OF quiet, of env r2] have "c3 = c1" by auto
    with render_nothing[OF quiet, of env r3] show ?thesis by simp
  next
    case live
    let ?st = "app_store c1"
    let ?m2 = "fst (react_update env ?st pm1 ?st mc1 (next_pc c1))"
    from two render_update[OF live(1) live(3) live(2), of env] live(4)
    have r2: "r2 = c1" and c2: "app_call c2 = Some ?m2" and s2: "app_store c2 = ?st"
      by auto
    have m2: "media_deps ?m2 = media_deps mc1" by (rule update_keeps_counter)
    have p2: "pc_deps ?st ?m2 = pc_deps ?st mc1"
      using live(5) by (rule update_keeps_pc_deps)
    let ?m3 = "fst (react_update env ?st mc1 ?st ?m2 (next_pc c2))"
    have vis2: "shows_VideoCall (app_store c2)" using live(3) s2 by simp
    have prev2: "app_call r2 = Some mc1" using r2 live(1) by simp
    from three render_update[OF c2 vis2 prev2, of env] r2 s2
    have r3: "r3 = c2" and c3: "app_call c3 = Some ?m3" and s3: "app_store c3 = ?st"
      by auto
    have m3: "media_deps ?m3 = media_deps ?m2" by (rule update_keeps_counter)
    have p3: "pc_deps ?st ?m3 = pc_deps ?st ?m2"
      using m2 by (rule update_keeps_pc_deps)
    have t3: "stats_deps ?st ?m3 = stats_deps ?st ?m2"
      using m2 p2 by (rule update_keeps_stats_deps)
    have vis3: "shows_VideoCall (app_store c3)" using live(3) s3 by simp
    have prev3: "app_call r3 = Some ?m2" using r3 c2 by simp
    have "react_update env ?st ?m2 ?st ?m3 (next_pc c3) = (?m3, [], next_pc c3)"
      using m3 p3 t3 by (intro update_nothing) auto
    with render_update[OF c3 vis3 prev3, of env] r3 s2 s3 c3 show ?thesis
      by simp
  qed
qed

section \<open>Properties of the call component\<close>

text \<open>
  C3. The component keeps no incoming candidate. Every \<open>iceCandidate\<close> message that
  arrives while the component is mounted with a socket and a peer connection is handed
  to that connection's \<open>addIceCandidate\<close> at once: for any sequence of such messages the
  effects are exactly one \<open>addIceCandidate\<close> per message, in the order of receipt, and
  the client's state is unchanged. A message that arrives while there is no component,
  no peer connection or no socket has no effect at all and leaves the state unchanged.
\<close>

theorem ice_candidates_applied_at_once_never_buffered:
  "(app_call c = Some mc \<and> peerConnection (call_state mc) = Some pc
      \<and> socket (app_store c) \<noteq> None \<longrightarrow>
      client_run env c (map SocketIceCandidate cands) = (c, map (PcAddIceCandidate pc) cands))
   \<and> (app_call c = None \<or> (app_call c = Some mc \<and> peerConnection (call_state mc) = None)
        \<or> socket (app_store c) = None \<longrightarrow>
      client_run env c (map SocketIceCandidate cands) = (c, []))"
  by (induction cands)
    (auto simp: client_step_def socket_on_iceCandidate_def handleIceCandidate_def
       split: option.splits)

theorem ice_candidates_applied_at_once_never_buffered_witness:
  "app_call \<lparr>app_store = logged_in ''bob'' ''Bob'',
             app_call = Some (mounted_init
                               \<lparr>call_state := video_call_init\<lparr>peerConnection := Some 7\<rparr>\<rparr>),
             next_pc = 8\<rparr>
     = Some (mounted_init\<lparr>call_state := video_call_init\<lparr>peerConnection := Some 7\<rparr>\<rparr>)
   \<and> peerConnection
       (call_state (mounted_init\<lparr>call_state := video_call_init\<lparr>peerConnection := Some 7\<rparr>\<rparr>))
     = Some 7
   \<and> socket (logged_in ''bob'' ''Bob'') \<noteq> None
   \<and> client_run granting_browser
        \<lparr>app_store = logged_in ''bob'' ''Bob'',
         app_call = Some (mounted_init
                           \<lparr>call_state := video_call_init\<lparr>peerConnection := Some 7\<rparr>\<rparr>),
         next_pc = 8\<rparr>
        (map SocketIceCandidate [JStr ''c1'', JStr ''c2''])
       = (\<lparr>app_store = logged_in ''bob'' ''Bob'',
           app_call = Some (mounted_init
                             \<lparr>call_state := video_call_init\<lparr>peerConnection := Some 7\<rparr>\<rparr>),
           next_pc = 8\<rparr>,
          map (PcAddIceCandidate 7) [JStr ''c1'', JStr ''c2''])
   \<and> app_call (tab ''bob'' ''Bob'') = None
   \<and> client_run granting_browser (tab ''bob'' ''Bob'')
        (map SocketIceCandidate [JStr ''c1'', JStr ''c2''])
       = (tab ''bob'' ''Bob'', [])"
  using ice_candidates_applied_at_once_never_buffered
    [where c = "\<lparr>app_store = logged_in ''bob'' ''Bob'',
                  app_call = Some (mounted_init
                     \<lparr>call_state := video_call_init\<lparr>peerConnection := Some 7\<rparr>\<rparr>),
                  next_pc = 8\<rparr>"
       and mc = "mounted_init\<lparr>call_state := video_call_init\<lparr>peerConnection := Some 7\<rparr>\<rparr>"
       and pc = 7 and env = granting_browser and cands = "[JStr ''c1'', JStr ''c2'']"]
    ice_candidates_applied_at_once_never_buffered
    [where c = "tab ''bob'' ''Bob''" and mc = mounted_init and pc = 7
       and env = granting_browser and cands = "[JStr ''c1'', JStr ''c2'']"]
  by (simp add: tab_def logged_in_def store_init_def)

text \<open>
  C3 as it was claimed (a candidate received before the remote description is applied
  is buffered and applied afterwards) fails. Alice calls bob; a candidate that arrives
  while she is waiting for the answer changes nothing and causes no effect, and when
  the answer has arrived, the component has mounted and the answer has been set as the
  remote description of the new peer connection, the candidate has not been applied. On
  bob's side, the component mounts on alice's invite, answers it on the connection 0
  and, the call now being accepted, replaces that connection by the connection 1; a
  candidate that arrives then is applied to the connection 1 at once, on which no remote
  description has been set.
\<close>

theorem early_ice_candidate_is_dropped:
  "client_run granting_browser
     (fst (client_run granting_browser (tab ''alice'' ''Alice'')
        [CallUser (JStr ''bob'') (JStr ''offer'') (JStr ''Bob'')]))
     [SocketIceCandidate (JStr ''candidate'')]
   = (fst (client_run granting_browser (tab ''alice'' ''Alice'')
        [CallUser (JStr ''bob'') (JStr ''offer'') (JStr ''Bob'')]), [])
   \<and> snd (client_run granting_browser (tab ''alice'' ''Alice'')
        [CallUser (JStr ''bob'') (JStr ''offer'') (JStr ''Bob''),
         SocketIceCandidate (JStr ''candidate''),
         SocketCallAccepted (JStr ''answer'')])
     = [Emit ''callUser''
          [JObj [(''userToCall'', JStr ''bob''), (''signalData'', JStr ''offer''),
                 (''from'', JStr ''alice''), (''name'', JStr ''Alice'')]],
        SetTimer AnswerTimeout 15000,
        SetTimer DurationInterval 1000,
        GetUserMedia default_constraints,
        PcCreate 0,
        PcAddTrack 0 \<lparr>track_id = 1, kind = VideoTrack\<rparr>,
        PcAddTrack 0 \<lparr>track_id = 2, kind = AudioTrack\<rparr>,
        PcSetRemoteDescription 0 (JStr ''answer''),
        SetTimer StatsInterval 1000]
   \<and> snd (client_run granting_browser (tab ''bob'' ''Bob'')
        [SocketCallUser invite, NegotiationSettled 0 (Some (JStr ''answer'')),
         SocketIceCandidate (JStr ''candidate'')])
     = [GetUserMedia default_constraints,
        PcCreate 0,
        PcAddTrack 0 \<lparr>track_id = 1, kind = VideoTrack\<rparr>,
        PcAddTrack 0 \<lparr>track_id = 2, kind = AudioTrack\<rparr>,
        PcSetRemoteDescription 0 (JStr ''offer''),
        PcCreateAnswer 0,
        PcSetLocalDescription 0 (JStr ''answer''),
        Emit ''answerCall'' [JObj [(''signal'', JStr ''answer''), (''to'', JStr ''alice'')]],
        PcClose 0,
        SetTimer DurationInterval 1000,
        SetTimer StatsInterval 1000,
        PcCreate 1,
        PcAddTrack 1 \<lparr>track_id = 1, kind = VideoTrack\<rparr>,
        PcAddTrack 1 \<lparr>track_id = 2, kind = AudioTrack\<rparr>,
        ClearTimer StatsInterval,
        SetTimer StatsInterval 1000,
        PcAddIceCandidate 1 (JStr ''candidate'')]"
  by code_simp

text \<open>
  C4. An incoming \<open>callUser\<close> message puts the store into the ringing state
  (\<open>receivingCall\<close> set, \<open>callAccepted\<close> clear); \<open>HomePage\<close> then renders the component,
  and the component's media effect requests the media at once: where the browser
  supports it, the first effect of the invite is a \<open>getUserMedia\<close> request, before any
  click; the only other effects of the invite are those of the peer connection effect
  on the result of that request. Declining from the incoming-call dialog sends
  \<open>rejectCall\<close> to the caller (when a socket and the caller are set) and no other
  message, stops every track of the stream the component has acquired, leaves the store
  ended with nothing rendered, and unmounts the component.
\<close>

theorem invite_requests_media_before_accept:
  assumes "app_call c = None"
  shows "rendered_view (app_store (fst (client_run env c [SocketCallUser data])))
           = IncomingView
       \<and> \<not> callAccepted (app_store (fst (client_run env c [SocketCallUser data])))
       \<and> snd (client_run env c [SocketCallUser data])
           = snd (getMediaWithErrorHandling 0 video_call_init default_constraints env)
             @ fst (snd (peer_connection_effect
                  (fst (getMediaWithErrorHandling 0 video_call_init default_constraints env))
                  (socket_on_callUser (app_store c) data) (next_pc c)))
       \<and> (supported env \<longrightarrow>
            (\<exists>cs rest. snd (client_run env c [SocketCallUser data]) = GetUserMedia cs # rest))
       \<and> (rendered_view st = IncomingView \<longrightarrow>
            client_step env \<lparr>app_store = st, app_call = Some mc, next_pc = n\<rparr> ClickDecline
              = (\<lparr>app_store = fst (snd (click_decline (call_state mc) st)),
                  app_call = None, next_pc = n\<rparr>,
                 snd (snd (click_decline (call_state mc) st))
                 @ react_unmount (mc\<lparr>call_state := fst (click_decline (call_state mc) st)\<rparr>))
          \<and> emits (snd (client_step env \<lparr>app_store = st, app_call = Some mc, next_pc = n\<rparr>
                           ClickDecline)) =
              (if socket st \<noteq> None \<and> truthy (js_get (caller st) ''from'')
               then [(''rejectCall'', [JObj [(''to'', js_get (caller st) ''from'')]])] else [])
          \<and> stopped_tracks (snd (snd (click_decline (call_state mc) st))) =
              (case localStream (call_state mc) of None \<Rightarrow> [] | Some stream \<Rightarrow> stream)
          \<and> callEnded (fst (snd (click_decline (call_state mc) st)))
          \<and> rendered_view (fst (snd (click_decline (call_state mc) st))) = NoView)"
proof -
  let ?run = "client_run env c [SocketCallUser data]"
  have store: "app_store (fst ?run) = socket_on_callUser (app_store c) data"
    by (simp add: case_prod_beta client_step_store)
  have effs: "snd ?run
           = snd (getMediaWithErrorHandling 0 video_call_init default_constraints env)
             @ fst (snd (peer_connection_effect
                  (fst (getMediaWithErrorHandling 0 video_call_init default_constraints env))
                  (socket_on_callUser (app_store c) data) (next_pc c)))"
    using invite_effects[OF assms] by (simp add: case_prod_beta)
  have view: "rendered_view (app_store (fst ?run)) = IncomingView"
    by (simp only: store) (simp add: rendered_view_def socket_on_callUser_def)
  have nacc: "\<not> callAccepted (app_store (fst ?run))"
    by (simp only: store) (simp add: socket_on_callUser_def)
  have req: "supported env \<longrightarrow> (\<exists>cs rest. snd ?run = GetUserMedia cs # rest)"
  proof
    assume "supported env"
    then obtain cs rest where
      "snd (getMediaWithErrorHandling 0 video_call_init default_constraints env)
         = GetUserMedia cs # rest"
      using getMedia_requests by blast
    with effs show "\<exists>cs rest. snd ?run = GetUserMedia cs # rest" by simp
  qed
  have decline: "rendered_view st = IncomingView \<longrightarrow>
            client_step env \<lparr>app_store = st, app_call = Some mc, next_pc = n\<rparr> ClickDecline
              = (\<lparr>app_store = fst (snd (click_decline (call_state mc) st)),
                  app_call = None, next_pc = n\<rparr>,
                 snd (snd (click_decline (call_state mc) st))
                 @ react_unmount (mc\<lparr>call_state := fst (click_decline (call_state mc) st)\<rparr>))
          \<and> emits (snd (client_step env \<lparr>app_store = st, app_call = Some mc, next_pc = n\<rparr>
                           ClickDecline)) =
              (if socket st \<noteq> None \<and> truthy (js_get (caller st) ''from'')
               then [(''rejectCall'', [JObj [(''to'', js_get (caller st) ''from'')]])] else [])"
  proof
    assume v: "rendered_view st = IncomingView"
    note step = decline_step[OF v, of env mc n]
    have "emits (snd (client_step env \<lparr>app_store = st, app_call = Some mc, next_pc = n\<rparr>
                           ClickDecline)) =
              (if socket st \<noteq> None \<and> truthy (js_get (caller st) ''from'')
               then [(''rejectCall'', [JObj [(''to'', js_get (caller st) ''from'')]])] else [])"
      by (simp only: step) (simp add: emits_append emits_react_unmount decline_effects(1))
    with step show "client_step env \<lparr>app_store = st, app_call = Some mc, next_pc = n\<rparr> ClickDecline
              = (\<lparr>app_store = fst (snd (click_decline (call_state mc) st)),
                  app_call = None, next_pc = n\<rparr>,
                 snd (snd (click_decline (call_state mc) st))
                 @ react_unmount (mc\<lparr>call_state := fst (click_decline (call_state mc) st)\<rparr>))
          \<and> emits (snd (client_step env \<lparr>app_store = st, app_call = Some mc, next_pc = n\<rparr>
                           ClickDecline)) =
              (if socket st \<noteq> None \<and> truthy (js_get (caller st) ''from'')
               then [(''rejectCall'', [JObj [(''to'', js_get (caller st) ''from'')]])] else [])"
      by blast
  qed
  from view nacc effs req decline decline_effects(2,3,4)[of "call_state mc" st]
  show ?thesis by blast
qed

theorem invite_requests_media_before_accept_witness:
  "app_call (tab ''bob'' ''Bob'') = None
   \<and> supported granting_browser
   \<and> rendered_view (socket_on_callUser (logged_in ''bob'' ''Bob'') invite) = IncomingView
   \<and> snd (client_run granting_browser (tab ''bob'' ''Bob'') [SocketCallUser invite])
       = [GetUserMedia default_constraints,
          PcCreate 0,
          PcAddTrack 0 \<lparr>track_id = 1, kind = VideoTrack\<rparr>,
          PcAddTrack 0 \<lparr>track_id = 2, kind = AudioTrack\<rparr>,
          PcSetRemoteDescription 0 (JStr ''offer'')]
   \<and> emits (snd (client_step granting_browser
        \<lparr>app_store = socket_on_callUser (logged_in ''bob'' ''Bob'') invite,
         app_call = Some (mounted_init
           \<lparr>call_state := video_call_init\<lparr>localStream := Some camera_and_mic\<rparr>\<rparr>),
         next_pc = 0\<rparr> ClickDecline))
       = [(''rejectCall'', [JObj [(''to'', JStr ''alice'')]])]
   \<and> stopped_tracks (snd (snd (click_decline
        (video_call_init\<lparr>localStream := Some camera_and_mic\<rparr>)
        (socket_on_callUser (logged_in ''bob'' ''Bob'') invite))))
       = camera_and_mic"
  using invite_requests_media_before_accept
    [where c = "tab ''bob'' ''Bob''" and env = granting_browser and data = invite
       and st = "socket_on_callUser (logged_in ''bob'' ''Bob'') invite"
       and mc = "mounted_init
           \<lparr>call_state := video_call_init\<lparr>localStream := Some camera_and_mic\<rparr>\<rparr>"
       and n = 0]
  by (simp add: client_step_store tab_def invite_def logged_in_def store_init_def
      socket_on_callUser_def
      rendered_view_def js_get_def granting_browser_def getMediaWithErrorHandling_def
      default_constraints_def video_call_init_def mounted_init_def camera_and_mic_def
      peer_connection_effect_def peer_connection_runs_def Let_def
      click_decline_def rejectCall_def handleEndCall_def endCall_def stop_tracks_def
      clear_ref_def react_unmount_def duration_cleanup_def stats_cleanup_def
      media_cleanup_def unmount_cleanup_def peer_connection_cleanup_def)

text \<open>
  C4 as it was claimed (no device capture while ringing, only after the user accepts)
  fails: bob receives alice's invite and \<open>HomePage\<close> renders the component; with no
  click at all, \<open>getUserMedia\<close> has been requested and the component holds the camera and
  microphone stream, while the call is still ringing.
\<close>

theorem media_acquired_while_ringing:
  "snd (client_run granting_browser (tab ''bob'' ''Bob'') [SocketCallUser invite])
     = [GetUserMedia default_constraints,
        PcCreate 0,
        PcAddTrack 0 \<lparr>track_id = 1, kind = VideoTrack\<rparr>,
        PcAddTrack 0 \<lparr>track_id = 2, kind = AudioTrack\<rparr>,
        PcSetRemoteDescription 0 (JStr ''offer'')]
   \<and> rendered_view (app_store (fst (client_run granting_browser (tab ''bob'' ''Bob'')
        [SocketCallUser invite]))) = IncomingView
   \<and> map_option (\<lambda>mc. localStream (call_state mc))
       (app_call (fst (client_run granting_browser (tab ''bob'' ''Bob'')
          [SocketCallUser invite]))) = Some (Some camera_and_mic)"
  by code_simp


text \<open>
  What the part of \<open>handleReconnection\<close> after the wait checks is the socket and the
  stream of its closure, whatever has become of the peer connection: with the socket
  connected and a stream held it reports the status connected and has no effect; with
  the socket down it reports a socket error.
\<close>

lemma handleReconnection_resume_checks_the_socket_only:
  "handleReconnection_resume True seen vc (Some True) env
     = (vc\<lparr>connectionError := None, callStatus := Connected, isReconnecting := False\<rparr>, [])"
  "sock \<noteq> Some True \<Longrightarrow>
   handleReconnection_resume had_stream seen vc sock env
     = (vc\<lparr>socketError := Some ''Socket disconnected. Please refresh the page.'',
           isReconnecting := False\<rparr>, [])"
proof -
  show "handleReconnection_resume True seen vc (Some True) env
     = (vc\<lparr>connectionError := None, callStatus := Connected, isReconnecting := False\<rparr>, [])"
    by (simp add: handleReconnection_resume_def)
  show "sock \<noteq> Some True \<Longrightarrow>
   handleReconnection_resume had_stream seen vc sock env
     = (vc\<lparr>socketError := Some ''Socket disconnected. Please refresh the page.'',
           isReconnecting := False\<rparr>, [])"
    by (cases sock) (auto simp: handleReconnection_resume_def)
qed

text \<open>
  C7. On the code the claim fails. \<open>handleEndCall\<close>, which the End Call and the Decline
  buttons run, stops every track of the stream the component holds and closes its peer
  connection (see \<open>stopped_tracks_handleEndCall\<close> and \<open>decline_effects\<close> above). The other
  causes of ending do not run it: they end the call in the store, \<open>HomePage\<close> stops
  rendering the component, and what is left is the cleanups of the effects. The cleanup
  of the media effect does stop the tracks of \<open>localStream\<close>, but of the \<open>localStream\<close>
  of the render in which the effect ran, which is \<open>null\<close>. So when bob ends the call that
  alice has in progress, the intervals are cleared and the peer connection is closed,
  but no track is stopped, though the component held the camera and the microphone; the
  same happens on bob's side when the call is ended while it rings. Of the timers, the
  15 second answer timer is cleared by no cause of ending, and the 2 second wait of a
  reconnection is not cleared either, not even by the End Call button. And a peer
  connection that reports \<open>failed\<close> does not end the call at all.
\<close>

theorem remote_end_leaves_the_tracks_running:
  "map_option (\<lambda>mc. localStream (call_state mc)) (app_call active_call)
     = Some (Some camera_and_mic)
   \<and> snd (client_step granting_browser active_call SocketCallEnded)
     = [ClearTimer DurationInterval, ClearTimer StatsInterval, ClearTimer StatsInterval,
        PcClose 0]
   \<and> stopped_tracks (snd (client_step granting_browser active_call SocketCallEnded)) = []
   \<and> app_call (fst (client_step granting_browser active_call SocketCallEnded)) = None
   \<and> callEnded (app_store (fst (client_step granting_browser active_call SocketCallEnded)))
   \<and> stopped_tracks (snd (client_step granting_browser active_call SocketCallRejected)) = []
   \<and> map_option (\<lambda>mc. localStream (call_state mc))
       (app_call (fst (client_run granting_browser (tab ''bob'' ''Bob'')
          [SocketCallUser invite]))) = Some (Some camera_and_mic)
   \<and> stopped_tracks (snd (client_run granting_browser (tab ''bob'' ''Bob'')
        [SocketCallUser invite, SocketCallEnded])) = []
   \<and> armed_timers [] (snd (client_run granting_browser (tab ''alice'' ''Alice'')
        (call_in_progress @ [SocketCallEnded]))) = [AnswerTimeout]
   \<and> stopped_tracks (snd (client_step granting_browser active_call ClickEndCall))
     = camera_and_mic
   \<and> armed_timers [] (snd (client_run granting_browser (tab ''alice'' ''Alice'')
        (call_in_progress @ [ClickEndCall]))) = [AnswerTimeout]
   \<and> armed_timers [] (snd (client_run granting_browser (tab ''alice'' ''Alice'')
        (call_in_progress @ [ConnectionStateChange ''disconnected'', ClickEndCall])))
     = [AnswerTimeout, ReconnectWait]
   \<and> snd (client_step granting_browser active_call (ConnectionStateChange ''failed'')) = []
   \<and> \<not> callEnded (app_store (fst (client_step granting_browser active_call
                                      (ConnectionStateChange ''failed''))))"
  by code_simp

text \<open>
  The cleanup of the media effect stops the tracks of the stream in its closure, and
  that closure is made in the render in which the effect runs; the effect runs when the
  component mounts, with the initial \<open>localStream\<close>, and again only when
  \<open>retryAttempts\<close> changes.
\<close>

lemma media_cleanup_stops_the_captured_stream_only:
  "stopped_tracks (media_cleanup mc) =
     (case mount_captured mc of None \<Rightarrow> [] | Some stream \<Rightarrow> stream)"
  "mount_captured (fst (run_media_effect env mc)) = localStream (call_state mc)"
  "mount_captured (fst (react_mount env st h)) = None"
proof -
  show "stopped_tracks (media_cleanup mc) =
     (case mount_captured mc of None \<Rightarrow> [] | Some stream \<Rightarrow> stream)"
    by (simp add: media_cleanup_def unmount_cleanup_def stopped_tracks_append
        stopped_tracks_stop_tracks stopped_tracks_clear_ref)
  show "mount_captured (fst (run_media_effect env mc)) = localStream (call_state mc)"
    by (simp add: run_media_effect_def case_prod_beta)
  show "mount_captured (fst (react_mount env st h)) = None"
    by (simp add: react_mount_def run_media_effect_def run_peer_connection_effect_def
        run_stats_effect_def run_duration_effect_def case_prod_beta mounted_init_def
        peer_connection_effect_def peer_connection_runs_def network_quality_effect_def
        video_call_init_def)
qed

text \<open>
  The policy of \<open>handleMediaError\<close>, for the counter value \<open>seen\<close> that it reads. A
  permission error (\<open>NotAllowedError\<close>, \<open>PermissionDeniedError\<close>) sets \<open>permissionDenied\<close>,
  is marked as not retryable and schedules nothing. An over-constrained error
  (\<open>OverconstrainedError\<close>, \<open>ConstraintNotSatisfiedError\<close>) schedules a retry exactly when
  \<open>seen\<close> is below 3, and is marked as not retryable otherwise.
\<close>

lemma handleMediaError_permission_denied:
  assumes "error_key error = ''NotAllowedError'' \<or> error_key error = ''PermissionDeniedError''"
  shows "handleMediaError seen vc error =
        (vc\<lparr>permissionDenied := True,
            mediaError := Some \<lparr>message = ''Camera and microphone access denied. Please allow permissions in your browser settings and refresh the page.'',
                               canRetry = False\<rparr>\<rparr>, [])"
proof -
  have a: "error_key error = ''NotAllowedError'' \<Longrightarrow> ?thesis"
    by (simp add: handleMediaError_def Let_def)
  have b: "error_key error = ''PermissionDeniedError'' \<Longrightarrow> ?thesis"
    by (simp add: handleMediaError_def Let_def)
  from assms a b show ?thesis by blast
qed

lemma handleMediaError_overconstrained:
  assumes "error_key error = ''OverconstrainedError''
         \<or> error_key error = ''ConstraintNotSatisfiedError''"
  shows "snd (handleMediaError seen vc error) =
           (if seen < 3 then [SetTimer (MediaRetry seen) 1000] else [])
       \<and> map_option canRetry (mediaError (fst (handleMediaError seen vc error))) =
           Some (seen < 3)"
proof -
  have a: "error_key error = ''OverconstrainedError'' \<Longrightarrow> ?thesis"
    by (simp add: handleMediaError_def Let_def MAX_RETRY_ATTEMPTS_def)
  have b: "error_key error = ''ConstraintNotSatisfiedError'' \<Longrightarrow> ?thesis"
    by (simp add: handleMediaError_def Let_def MAX_RETRY_ATTEMPTS_def)
  from assms a b show ?thesis by blast
qed

text \<open>
  A retry that fails again with an over-constrained error is answered by the handler of
  the same closure, which reads the same counter: whatever the state's counter has
  become, a chain that was started with a counter below 3 schedules its next retry.
\<close>

lemma retry_chain_keeps_its_counter:
  assumes "seen < 3"
  shows "snd (media_retry_fired seen vc overconstrained_browser) =
           [GetUserMedia relaxed_constraints, SetTimer (MediaRetry seen) 1000]
       \<and> retryAttempts (fst (media_retry_fired seen vc overconstrained_browser)) =
           retryAttempts vc + 1"
proof -
  have r: "retryAttempts (fst (media_retry_fired seen vc overconstrained_browser)) =
           retryAttempts vc + 1"
    by (simp add: media_retry_fired_def getMedia_frame)
  have e: "snd (media_retry_fired seen vc overconstrained_browser) =
           [GetUserMedia relaxed_constraints, SetTimer (MediaRetry seen) 1000]"
    using assms
    by (simp add: media_retry_fired_def getMediaWithErrorHandling_def media_failed_def
        handleMediaError_def overconstrained_browser_def relaxed_constraints_def
        error_key_def MAX_RETRY_ATTEMPTS_def Let_def)
  from r e show ?thesis by blast
qed


text \<open>
  C8. The permission half of the claim holds (see above). The bound of three automatic
  retries does not hold on the code: with a browser that rejects every media request
  with \<open>OverconstrainedError\<close>, the component that mounts for bob's incoming call requests
  the media, fails, and retries one second later; the callbacks of the chain of retry
  timers all read the counter 0 of the render that started the chain. Every retry
  raises the state's counter, which makes React run the media effect again: it requests
  the media with the default constraints and, while the counter it reads is below 3,
  starts a chain of its own. The timers are taken in the order in which they are due.
  When the first chain makes its fourth retry the state's counter stands at 7 and the
  error has been marked as final more than once, and still the chain schedules a fifth
  retry.
\<close>

theorem overconstrained_retries_exceed_three:
  "snd (client_run overconstrained_browser (tab ''bob'' ''Bob'')
          [SocketCallUser invite,
           MediaRetryFired 0, MediaRetryFired 0, MediaRetryFired 1, MediaRetryFired 0,
           MediaRetryFired 2, MediaRetryFired 1, MediaRetryFired 0])
     = [GetUserMedia default_constraints, SetTimer (MediaRetry 0) 1000,
        GetUserMedia relaxed_constraints, SetTimer (MediaRetry 0) 1000,
        GetUserMedia default_constraints, SetTimer (MediaRetry 1) 1000,
        GetUserMedia relaxed_constraints, SetTimer (MediaRetry 0) 1000,
        GetUserMedia default_constraints, SetTimer (MediaRetry 2) 1000,
        GetUserMedia relaxed_constraints, SetTimer (MediaRetry 1) 1000,
        GetUserMedia default_constraints,
        GetUserMedia relaxed_constraints, SetTimer (MediaRetry 0) 1000,
        GetUserMedia default_constraints,
        GetUserMedia relaxed_constraints, SetTimer (MediaRetry 2) 1000,
        GetUserMedia default_constraints,
        GetUserMedia relaxed_constraints, SetTimer (MediaRetry 1) 1000,
        GetUserMedia default_constraints,
        GetUserMedia relaxed_constraints, SetTimer (MediaRetry 0) 1000,
        GetUserMedia default_constraints]
   \<and> map_option (\<lambda>mc. (retryAttempts (call_state mc),
                        map_option canRetry (mediaError (call_state mc))))
       (app_call (fst (client_run overconstrained_browser (tab ''bob'' ''Bob'')
          [SocketCallUser invite,
           MediaRetryFired 0, MediaRetryFired 0, MediaRetryFired 1, MediaRetryFired 0,
           MediaRetryFired 2, MediaRetryFired 1, MediaRetryFired 0])))
     = Some (7, Some False)"
  by code_simp

end
